theory Spec2Isabelle
  imports Complex_Main "HOL-Library.AList"
begin

section \<open>Data model of \<open>tsfin/portfolio/portfolio.py\<close>\<close>

text \<open>
  Dates are \<open>pandas\<close> timestamps, a linear order; they are modelled as integers
  (a day count), so \<open>pd.to_datetime\<close> is the identity. Quantities, prices and cash
  amounts are plain Python numbers, modelled as reals; dividing by a zero of them raises
  \<open>ZeroDivisionError\<close>. The results of an instrument's \<open>value\<close> and metric
  methods are the numbers the source tests with \<open>np.isnan\<close>: they are values of
  \<open>num\<close>, a plain Python number, a \<open>numpy\<close> scalar or not-a-number. Arithmetic
  with a \<open>numpy\<close> scalar gives a \<open>numpy\<close> scalar, and dividing one, or by one
  that is 0, does not raise: it gives an infinity or not-a-number (with a warning).
  The weighted result of a metric query is therefore a value of \<open>weighted\<close>.

  The exceptions the source can raise are values of \<open>exn\<close>. The specification's names
  for them are: StructuralFailure for the \<open>ValueError\<close> of \<open>find_lt\<close>, NumericFailure for the
  \<open>ZeroDivisionError\<close> of \<open>merge_trades\<close>, DegenerateValuationError for the
  \<open>ZeroDivisionError\<close> of the weighted sum, and LookupFailure for the
  \<open>AttributeError\<close> raised on the sentinel that \<open>get_security\<close> returns.
  A function that can raise returns \<open>exn + 'a\<close>. The ledger a raising \<open>carry_to\<close>
  leaves behind is given by \<open>carry_to_leaves\<close>; the lines a query prints are given by
  \<open>value_printed\<close> and \<open>metric_printed\<close>.
\<close>

type_synonym date = int

datatype exn = ValueError | ZeroDivisionError | AttributeError | KeyError

datatype num = Py real | Np real | NaN

datatype weighted = Finite real | PosInf | NegInf | NotANumber

datatype metric = YTM | YTW | ZSPREAD_TO_MAT | ZSPREAD_TO_WORST | ZSPREAD_TO_WORST_ROLLING_CALL
  | MOD_DURATION_TO_MAT | MOD_DURATION_TO_WORST | MOD_DURATION_TO_WORST_ROLLING_CALL | OAS

text \<open>
  A line printed by \<open>value\<close> (Security \<open>n\<close> is returning null value in \<open>d\<close>,
  replacing by zero..) or by a metric method (the same with the metric's name).
\<close>

datatype diagnostic = Null_value string date | Null_metric metric string date

record trade =
  qty :: real
  price :: real

text \<open>
  \<open>trade(old.qty + new.qty, (old.qty * old.price + new.qty * new.price)/(old.qty + new.qty))\<close>
\<close>

definition merge_trades :: "trade \<Rightarrow> trade \<Rightarrow> exn + trade" where
  "merge_trades old new =
     (if qty old + qty new = 0 then Inl ZeroDivisionError
      else Inr \<lparr>qty = qty old + qty new,
                price = (qty old * price old + qty new * price new) / (qty old + qty new)\<rparr>)"

text \<open>
  \<open>bisect_left(a, x)\<close> on a sorted list is the number of elements smaller than \<open>x\<close>,
  the length of the longest prefix of such elements.
\<close>

definition bisect_left :: "date list \<Rightarrow> date \<Rightarrow> nat" where
  "bisect_left a x = length (takeWhile (\<lambda>y. y < x) a)"

definition find_lt :: "date \<Rightarrow> date list \<Rightarrow> exn + date" where
  "find_lt d sorted_dates =
     (let i = bisect_left sorted_dates d
      in if i \<noteq> 0 then Inr (sorted_dates ! (i - 1)) else Inl ValueError)"

subsection \<open>Instruments\<close>

text \<open>
  The instrument classes are outside the portfolio module; the portfolio uses an object
  through the attributes \<open>ts_name\<close> and \<open>name\<close> (read with \<open>getattr(obj, _, None)\<close>),
  the methods \<open>value\<close>, \<open>is_expired\<close>, \<open>cash_to_date\<close>, and one optional method per
  metric. An absent metric method is \<open>None\<close>: calling it raises \<open>AttributeError\<close>.
  Yield curves and model parameters are opaque handles passed through to the instrument.
\<close>

type_synonym curve = nat
type_synonym params = nat

record security =
  ts_name :: "string option"
  name :: "string option"
  sec_value :: "date \<Rightarrow> num"
  is_expired :: "date \<Rightarrow> bool"
  cash_to_date :: "date \<Rightarrow> date \<Rightarrow> real"
  metric_method :: "metric \<Rightarrow> (date \<Rightarrow> curve option \<Rightarrow> params option \<Rightarrow> num) option"

record kwargs =
  yield_curve_timeseries :: "curve option"
  model_params :: "(date \<times> params) list option"

subsection \<open>The portfolio\<close>

text \<open>
  A Python \<open>dict\<close> is a list of key-value pairs in insertion order, with distinct keys:
  \<open>d[k] = v\<close> is \<open>AList.update k v d\<close> (in place for a key present, appended
  otherwise), \<open>del d[k]\<close> is \<open>AList.delete k d\<close>, \<open>k in d\<close> is \<open>map_of d k \<noteq> None\<close>.
\<close>

type_synonym snapshot = "(string \<times> real) list"

record portfolio =
  positions :: "(date \<times> snapshot) list"
  trades :: "(date \<times> (string \<times> trade) list) list"
  currency :: string
  security_objects :: "security list"

definition dict_ok :: "portfolio \<Rightarrow> bool" where
  "dict_ok p \<longleftrightarrow> distinct (map fst (positions p)) \<and>
     list_all (\<lambda>(d, snap). distinct (map fst snap)) (positions p)"

text \<open>\<open>Portfolio(currency, security_objects)\<close>\<close>

definition Portfolio :: "string \<Rightarrow> security list option \<Rightarrow> portfolio" where
  "Portfolio cur so =
     \<lparr>positions = [], trades = [], currency = cur,
      security_objects = (case so of None \<Rightarrow> [] | Some objs \<Rightarrow> objs)\<rparr>"

text \<open>\<open>d.get(k, 0)\<close>\<close>

definition dict_get :: "('k \<times> real) list \<Rightarrow> 'k \<Rightarrow> real" where
  "dict_get d k = (case map_of d k of None \<Rightarrow> 0 | Some v \<Rightarrow> v)"

definition add_position :: "portfolio \<Rightarrow> date \<Rightarrow> string \<Rightarrow> real \<Rightarrow> portfolio" where
  "add_position p d n q =
     (case map_of (positions p) d of
        Some snap \<Rightarrow>
          p\<lparr>positions := AList.update d (AList.update n (dict_get snap n + q) snap) (positions p)\<rparr>
      | None \<Rightarrow> p\<lparr>positions := AList.update d [(n, q)] (positions p)\<rparr>)"

text \<open>
  With \<open>qty\<close> omitted the source pops the key \<open>date\<close> from the snapshot of \<open>date\<close>;
  the keys of a snapshot are names, so nothing is removed.
\<close>

definition remove_position :: "portfolio \<Rightarrow> date \<Rightarrow> string \<Rightarrow> real option \<Rightarrow> portfolio" where
  "remove_position p d n qo =
     (case map_of (positions p) d of
        None \<Rightarrow> p
      | Some snap \<Rightarrow>
          (case qo of
             None \<Rightarrow> p
           | Some q \<Rightarrow>
               p\<lparr>positions :=
                    AList.update d (AList.update n (dict_get snap n - q) snap) (positions p)\<rparr>))"

text \<open>
  \<open>get_security\<close> returns the first object whose \<open>ts_name\<close> or \<open>name\<close> is the name
  asked for, and otherwise the sentinel \<open>[None]\<close>, a list: \<open>None\<close> here. Every method
  call on the sentinel raises \<open>AttributeError\<close>.
\<close>

definition objs_or_own :: "portfolio \<Rightarrow> security list option \<Rightarrow> security list" where
  "objs_or_own p so = (case so of None \<Rightarrow> security_objects p | Some objs \<Rightarrow> objs)"

definition get_security :: "string \<Rightarrow> security list \<Rightarrow> security option" where
  "get_security security_name objs =
     find (\<lambda>obj. ts_name obj = Some security_name \<or> name obj = Some security_name) objs"

text \<open>
  The loop of \<open>carry_to\<close> over the names of the previous snapshot. The quantity
  \<open>self.positions[previous_date][security_name]\<close> is the one paired with the name:
  the loop writes only to the snapshot of \<open>date\<close>.
\<close>

fun carry_loop :: "portfolio \<Rightarrow> date \<Rightarrow> date \<Rightarrow> security list \<Rightarrow> snapshot \<Rightarrow> exn + portfolio" where
  "carry_loop p prev d objs [] = Inr p"
| "carry_loop p prev d objs ((n, q) # rest) =
     (case get_security n objs of
        None \<Rightarrow> Inl AttributeError
      | Some s \<Rightarrow>
          (let p1 = add_position p d (currency p) (cash_to_date s prev d);
               p2 = (if \<not> is_expired s d then add_position p1 d n q else p1)
           in carry_loop p2 prev d objs rest))"

definition carry_to :: "portfolio \<Rightarrow> date \<Rightarrow> security list option \<Rightarrow> exn + portfolio" where
  "carry_to p d so =
     (let objs = objs_or_own p so
      in if map_of (positions p) d \<noteq> None then Inr p
         else (case find_lt d (sort (map fst (positions p))) of
                 Inl e \<Rightarrow> Inl e
               | Inr prev \<Rightarrow>
                   (case map_of (positions p) prev of
                      None \<Rightarrow> Inl KeyError
                    | Some snap \<Rightarrow> carry_loop p prev d objs snap)))"



definition apply_trade ::
  "portfolio \<Rightarrow> date \<Rightarrow> string \<Rightarrow> trade \<Rightarrow> security list option \<Rightarrow> exn + portfolio" where
  "apply_trade p d n new_trade so =
     (case (if map_of (positions p) d = None then carry_to p d so else Inr p) of
        Inl e \<Rightarrow> Inl e
      | Inr p1 \<Rightarrow>
          (case map_of (positions p1) d of
             None \<Rightarrow> Inl KeyError
           | Some snap \<Rightarrow>
               (let s1 = AList.update n (dict_get snap n + qty new_trade) snap;
                    s2 = AList.update (currency p1)
                           (dict_get s1 (currency p1) - qty new_trade * price new_trade) s1;
                    s3 = (if dict_get s2 n = 0 \<and> n \<noteq> currency p1 then AList.delete n s2 else s2)
                in Inr (p1\<lparr>positions := AList.update d s3 (positions p1)\<rparr>))))"

definition add_trade ::
  "portfolio \<Rightarrow> date \<Rightarrow> string \<Rightarrow> trade \<Rightarrow> security list option \<Rightarrow> exn + portfolio" where
  "add_trade p d n new_trade so =
     (case (case map_of (trades p) d of
              Some day \<Rightarrow>
                (case merge_trades
                        (case map_of day n of None \<Rightarrow> \<lparr>qty = 0, price = 0\<rparr> | Some t \<Rightarrow> t)
                        new_trade of
                   Inl e \<Rightarrow> Inl e
                 | Inr m \<Rightarrow> Inr (p\<lparr>trades := AList.update d (AList.update n m day) (trades p)\<rparr>))
            | None \<Rightarrow> Inr (p\<lparr>trades := AList.update d [(n, new_trade)] (trades p)\<rparr>)) of
        Inl e \<Rightarrow> Inl e
      | Inr p1 \<Rightarrow> apply_trade p1 d n new_trade so)"

subsection \<open>Valuation and the weighted metrics\<close>

text \<open>
  The unit value of a held name in \<open>value\<close>: 1 for the currency, otherwise the
  instrument's \<open>value(date=date, last_available=True)\<close> with not-a-number replaced
  by 0. The call is outside any \<open>try\<close>, so the sentinel raises. The loop of \<open>value\<close>
  assigns \<open>value_dict[security_name]\<close> once per name of the snapshot, in its order.
\<close>

definition unit_value :: "string \<Rightarrow> security list \<Rightarrow> date \<Rightarrow> string \<Rightarrow> exn + real" where
  "unit_value cur objs d n =
     (if n = cur then Inr 1
      else (case get_security n objs of
              None \<Rightarrow> Inl AttributeError
            | Some s \<Rightarrow>
                (case sec_value s d of NaN \<Rightarrow> Inr 0 | Py r \<Rightarrow> Inr r | Np r \<Rightarrow> Inr r)))"

text \<open>
  Whether the value \<open>unit_value * quantity\<close> of a held name is a \<open>numpy\<close> scalar:
  when the instrument's value is one (the 1 of the currency and the 0 that replaces
  not-a-number are plain numbers, and so are the quantities).
\<close>

definition np_unit_value :: "string \<Rightarrow> security list \<Rightarrow> date \<Rightarrow> string \<Rightarrow> bool" where
  "np_unit_value cur objs d n \<longleftrightarrow>
     n \<noteq> cur \<and>
     (case get_security n objs of
        None \<Rightarrow> False
      | Some s \<Rightarrow> (case sec_value s d of Np r \<Rightarrow> True | Py r \<Rightarrow> False | NaN \<Rightarrow> False))"

text \<open>
  The line \<open>value\<close> prints for a held name: one when the instrument's value is
  not-a-number, none otherwise; and the lines of its loop over a snapshot.
\<close>

definition value_print :: "string \<Rightarrow> security list \<Rightarrow> date \<Rightarrow> string \<Rightarrow> diagnostic list" where
  "value_print cur objs d n =
     (if n = cur then []
      else (case get_security n objs of
              None \<Rightarrow> []
            | Some s \<Rightarrow>
                (case sec_value s d of NaN \<Rightarrow> [Null_value n d] | Py r \<Rightarrow> [] | Np r \<Rightarrow> [])))"

fun value_prints :: "string \<Rightarrow> security list \<Rightarrow> date \<Rightarrow> snapshot \<Rightarrow> diagnostic list" where
  "value_prints cur objs d [] = []"
| "value_prints cur objs d ((n, q) # rest) = value_print cur objs d n @ value_prints cur objs d rest"

fun value_loop :: "string \<Rightarrow> security list \<Rightarrow> date \<Rightarrow> snapshot \<Rightarrow> exn + snapshot" where
  "value_loop cur objs d [] = Inr []"
| "value_loop cur objs d ((n, q) # rest) =
     (case unit_value cur objs d n of
        Inl e \<Rightarrow> Inl e
      | Inr u \<Rightarrow>
          (case value_loop cur objs d rest of
             Inl e \<Rightarrow> Inl e
           | Inr vd \<Rightarrow> Inr ((n, u * q) # vd)))"

text \<open>\<open>Portfolio.value\<close>; the result is the returned pair and the portfolio after the call.\<close>

definition portfolio_value ::
  "portfolio \<Rightarrow> date \<Rightarrow> security list option \<Rightarrow> exn + (real \<times> snapshot) \<times> portfolio" where
  "portfolio_value p d so =
     (let objs = objs_or_own p so
      in case carry_to p d (Some objs) of
           Inl e \<Rightarrow> Inl e
         | Inr p1 \<Rightarrow>
             (case map_of (positions p1) d of
                None \<Rightarrow> Inl KeyError
              | Some snap \<Rightarrow>
                  (case value_loop (currency p1) objs d snap of
                     Inl e \<Rightarrow> Inl e
                   | Inr value_dict \<Rightarrow> Inr ((sum_list (map snd value_dict), value_dict), p1))))"

text \<open>
  The body of the \<open>try\<close> in a metric method: the instrument's metric with not-a-number
  replaced by 0, and 0 when \<open>AttributeError\<close> is raised, by the sentinel or by an
  instrument without the method.
\<close>

definition unit_result ::
  "metric \<Rightarrow> security list \<Rightarrow> date \<Rightarrow> curve option \<Rightarrow> params option \<Rightarrow> string \<Rightarrow> real" where
  "unit_result m objs d yc mp n =
     (case get_security n objs of
        None \<Rightarrow> 0
      | Some s \<Rightarrow>
          (case metric_method s m of
             None \<Rightarrow> 0
           | Some f \<Rightarrow> (case f d yc mp of NaN \<Rightarrow> 0 | Py r \<Rightarrow> r | Np r \<Rightarrow> r)))"

text \<open>Whether that result is a \<open>numpy\<close> scalar (the substituted 0 is a plain number).\<close>

definition np_unit_result ::
  "metric \<Rightarrow> security list \<Rightarrow> date \<Rightarrow> curve option \<Rightarrow> params option \<Rightarrow> string \<Rightarrow> bool" where
  "np_unit_result m objs d yc mp n \<longleftrightarrow>
     (case get_security n objs of
        None \<Rightarrow> False
      | Some s \<Rightarrow>
          (case metric_method s m of
             None \<Rightarrow> False
           | Some f \<Rightarrow> (case f d yc mp of Np r \<Rightarrow> True | Py r \<Rightarrow> False | NaN \<Rightarrow> False)))"

text \<open>
  The line a metric method prints for a held name: one when the instrument's metric is
  not-a-number, none otherwise, and none under \<open>except AttributeError\<close>; and the lines
  of its loop over a snapshot.
\<close>

definition metric_print ::
  "metric \<Rightarrow> security list \<Rightarrow> date \<Rightarrow> curve option \<Rightarrow> params option \<Rightarrow> string
     \<Rightarrow> diagnostic list" where
  "metric_print m objs d yc mp n =
     (case get_security n objs of
        None \<Rightarrow> []
      | Some s \<Rightarrow>
          (case metric_method s m of
             None \<Rightarrow> []
           | Some f \<Rightarrow>
               (case f d yc mp of NaN \<Rightarrow> [Null_metric m n d] | Py r \<Rightarrow> [] | Np r \<Rightarrow> [])))"

fun metric_prints ::
  "metric \<Rightarrow> security list \<Rightarrow> date \<Rightarrow> curve option \<Rightarrow> params option \<Rightarrow> snapshot
     \<Rightarrow> diagnostic list" where
  "metric_prints m objs d yc mp [] = []"
| "metric_prints m objs d yc mp ((n, q) # rest) =
     metric_print m objs d yc mp n @ metric_prints m objs d yc mp rest"

text \<open>
  What each metric reads from \<open>kwargs\<close> before its loop: nothing for the yields and
  durations, \<open>kwargs['yield_curve_timeseries']\<close> for the z-spreads, and also
  \<open>kwargs['model_params'][to_ql_date(date)]\<close> for \<open>oas\<close>.
\<close>

fun metric_args :: "metric \<Rightarrow> kwargs \<Rightarrow> date \<Rightarrow> exn + curve option \<times> params option" where
  "metric_args OAS kw d =
     (case yield_curve_timeseries kw of
        None \<Rightarrow> Inl KeyError
      | Some yc \<Rightarrow>
          (case model_params kw of
             None \<Rightarrow> Inl KeyError
           | Some mps \<Rightarrow>
               (case map_of mps d of
                  None \<Rightarrow> Inl KeyError
                | Some mp \<Rightarrow> Inr (Some yc, Some mp))))"
| "metric_args YTM kw d = Inr (None, None)"
| "metric_args YTW kw d = Inr (None, None)"
| "metric_args MOD_DURATION_TO_MAT kw d = Inr (None, None)"
| "metric_args MOD_DURATION_TO_WORST kw d = Inr (None, None)"
| "metric_args MOD_DURATION_TO_WORST_ROLLING_CALL kw d = Inr (None, None)"
| "metric_args m kw d =
     (case yield_curve_timeseries kw of
        None \<Rightarrow> Inl KeyError
      | Some yc \<Rightarrow> Inr (Some yc, None))"

text \<open>
  Addition of weighted results, and the quotient \<open>x / v\<close> when it does not raise: with
  a zero \<open>v\<close> it is computed by \<open>numpy\<close>, and the zero total of a sum that starts
  from the integer 0 is a positive zero.
\<close>

fun w_add :: "weighted \<Rightarrow> weighted \<Rightarrow> weighted" where
  "w_add (Finite x) (Finite y) = Finite (x + y)"
| "w_add NotANumber w = NotANumber"
| "w_add w NotANumber = NotANumber"
| "w_add PosInf NegInf = NotANumber"
| "w_add NegInf PosInf = NotANumber"
| "w_add PosInf w = PosInf"
| "w_add w PosInf = PosInf"
| "w_add NegInf w = NegInf"
| "w_add w NegInf = NegInf"

definition quotient :: "real \<Rightarrow> real \<Rightarrow> weighted" where
  "quotient x v =
     (if v \<noteq> 0 then Finite (x / v)
      else if x = 0 then NotANumber
      else if 0 < x then PosInf else NegInf)"

text \<open>
  \<open>sum(value_dict[name] * result_dict[name] / value for name in self.positions[date])\<close>.
  The term of a name is computed by \<open>numpy\<close> when \<open>np_term\<close> holds of it: when one of
  \<open>value_dict[name]\<close>, \<open>result_dict[name]\<close> and \<open>value\<close> is a \<open>numpy\<close> scalar;
  otherwise a zero \<open>value\<close> raises. The order of the additions does not matter:
  \<open>w_add\<close> is commutative and associative.
\<close>

fun weighted_sum ::
  "snapshot \<Rightarrow> snapshot \<Rightarrow> real \<Rightarrow> (string \<Rightarrow> bool) \<Rightarrow> string list \<Rightarrow> exn + weighted" where
  "weighted_sum value_dict result_dict v np_term [] = Inr (Finite 0)"
| "weighted_sum value_dict result_dict v np_term (n # ns) =
     (case map_of value_dict n of
        None \<Rightarrow> Inl KeyError
      | Some a \<Rightarrow>
          (case map_of result_dict n of
             None \<Rightarrow> Inl KeyError
           | Some b \<Rightarrow>
               (if v = 0 \<and> \<not> np_term n then Inl ZeroDivisionError
                else (case weighted_sum value_dict result_dict v np_term ns of
                        Inl e \<Rightarrow> Inl e
                      | Inr s \<Rightarrow> Inr (w_add (quotient (a * b) v) s)))))"

text \<open>
  The total \<open>value\<close> is a \<open>numpy\<close> scalar when the value of some held name is.
\<close>

definition np_term ::
  "metric \<Rightarrow> string \<Rightarrow> security list \<Rightarrow> date \<Rightarrow> curve option \<Rightarrow> params option \<Rightarrow> snapshot
     \<Rightarrow> string \<Rightarrow> bool" where
  "np_term m cur objs d yc mp snap n \<longleftrightarrow>
     list_ex (np_unit_value cur objs d) (map fst snap) \<or> np_unit_result m objs d yc mp n"

text \<open>
  The nine metric methods of \<open>Portfolio\<close> have one body, up to the instrument method
  they call and the \<open>kwargs\<close> they read.
\<close>

definition metric_query ::
  "metric \<Rightarrow> portfolio \<Rightarrow> date \<Rightarrow> security list option \<Rightarrow> kwargs
     \<Rightarrow> exn + (weighted \<times> snapshot) \<times> portfolio" where
  "metric_query m p d so kw =
     (let objs = objs_or_own p so
      in case carry_to p d (Some objs) of
           Inl e \<Rightarrow> Inl e
         | Inr p1 \<Rightarrow>
             (case portfolio_value p1 d (Some objs) of
                Inl e \<Rightarrow> Inl e
              | Inr ((v, value_dict), p2) \<Rightarrow>
                  (case metric_args m kw d of
                     Inl e \<Rightarrow> Inl e
                   | Inr (yc, mp) \<Rightarrow>
                       (case map_of (positions p2) d of
                          None \<Rightarrow> Inl KeyError
                        | Some snap \<Rightarrow>
                            (let result_dict =
                                   map (\<lambda>(n, q). (n, unit_result m objs d yc mp n)) snap
                             in case weighted_sum value_dict result_dict v
                                       (np_term m (currency p2) objs d yc mp snap)
                                       (map fst snap) of
                                  Inl e \<Rightarrow> Inl e
                                | Inr r \<Rightarrow> Inr ((r, result_dict), p2))))))"

definition ytm where "ytm = metric_query YTM"
definition ytw where "ytw = metric_query YTW"
definition zspread_to_worst where "zspread_to_worst = metric_query ZSPREAD_TO_WORST"
definition zspread_to_worst_rolling_call where
  "zspread_to_worst_rolling_call = metric_query ZSPREAD_TO_WORST_ROLLING_CALL"
definition mod_duration_to_mat where "mod_duration_to_mat = metric_query MOD_DURATION_TO_MAT"
definition mod_duration_to_worst where "mod_duration_to_worst = metric_query MOD_DURATION_TO_WORST"
definition mod_duration_to_worst_rolling_call where
  "mod_duration_to_worst_rolling_call = metric_query MOD_DURATION_TO_WORST_ROLLING_CALL"
definition oas where "oas = metric_query OAS"

text \<open>
  The lines printed by a call of \<open>value\<close> that returns, and by a call of a metric
  method that returns: those of its call of \<open>value\<close>, then those of its own loop.
\<close>

definition value_printed ::
  "portfolio \<Rightarrow> date \<Rightarrow> security list option \<Rightarrow> exn + diagnostic list" where
  "value_printed p d so =
     (case portfolio_value p d so of
        Inl e \<Rightarrow> Inl e
      | Inr (r, p') \<Rightarrow>
          (case map_of (positions p') d of
             None \<Rightarrow> Inl KeyError
           | Some snap \<Rightarrow> Inr (value_prints (currency p') (objs_or_own p so) d snap)))"

definition metric_printed ::
  "metric \<Rightarrow> portfolio \<Rightarrow> date \<Rightarrow> security list option \<Rightarrow> kwargs
     \<Rightarrow> exn + diagnostic list" where
  "metric_printed m p d so kw =
     (case metric_query m p d so kw of
        Inl e \<Rightarrow> Inl e
      | Inr (r, p') \<Rightarrow>
          (case metric_args m kw d of
             Inl e \<Rightarrow> Inl e
           | Inr (yc, mp) \<Rightarrow>
               (case map_of (positions p') d of
                  None \<Rightarrow> Inl KeyError
                | Some snap \<Rightarrow>
                    Inr (value_prints (currency p') (objs_or_own p so) d snap
                         @ metric_prints m (objs_or_own p so) d yc mp snap))))"

subsection \<open>Notions used to state the properties\<close>

text \<open>
  The cash \<open>cash_to_date(start_date=prev, date=d)\<close> of the instrument a name resolves
  to, whether that instrument \<open>is_expired\<close> at \<open>d\<close>, the quantity held of a name at a
  date (0 when there is none) and the names held at a date.
\<close>

definition accrual :: "security list \<Rightarrow> date \<Rightarrow> date \<Rightarrow> string \<Rightarrow> real" where
  "accrual objs prev d n =
     (case get_security n objs of None \<Rightarrow> 0 | Some s \<Rightarrow> cash_to_date s prev d)"

definition expired :: "security list \<Rightarrow> date \<Rightarrow> string \<Rightarrow> bool" where
  "expired objs d n = (case get_security n objs of None \<Rightarrow> False | Some s \<Rightarrow> is_expired s d)"

definition held_qty :: "portfolio \<Rightarrow> date \<Rightarrow> string \<Rightarrow> real" where
  "held_qty p d n = (case map_of (positions p) d of None \<Rightarrow> 0 | Some snap \<Rightarrow> dict_get snap n)"

definition held_names :: "portfolio \<Rightarrow> date \<Rightarrow> string set" where
  "held_names p d = (case map_of (positions p) d of None \<Rightarrow> {} | Some snap \<Rightarrow> set (map fst snap))"

text \<open>
  The ledger invariant of the specification: no entry of any snapshot holds quantity 0,
  except the entry of the base currency; \<open>snap_ok\<close> is the same for one snapshot.
\<close>

definition snap_ok :: "string \<Rightarrow> snapshot \<Rightarrow> bool" where
  "snap_ok cur snap \<longleftrightarrow> (\<forall>n q. (n, q) \<in> set snap \<longrightarrow> q \<noteq> 0 \<or> n = cur)"

definition no_zero_qty :: "portfolio \<Rightarrow> bool" where
  "no_zero_qty p \<longleftrightarrow>
     list_all (\<lambda>(d, snap). list_all (\<lambda>(n, q). q \<noteq> 0 \<or> n = currency p) snap) (positions p)"

subsection \<open>Example instruments and portfolios\<close>


definition stock_Q :: security where
  "stock_Q = \<lparr>ts_name = Some ''Q'', name = None, sec_value = (\<lambda>d. Np 50),
               is_expired = (\<lambda>d. False), cash_to_date = (\<lambda>a b. 0),
               metric_method = (\<lambda>m. None)\<rparr>"

definition numpy_zero_portfolio :: portfolio where
  "numpy_zero_portfolio =
     \<lparr>positions = [(0, [(''USD'', - 500), (''Q'', 10)])], trades = [], currency = ''USD'',
      security_objects = [stock_Q]\<rparr>"



definition no_kwargs :: kwargs where
  "no_kwargs = \<lparr>yield_curve_timeseries = None, model_params = None\<rparr>"

definition bond_A :: security where
  "bond_A = \<lparr>ts_name = Some ''A'', name = None, sec_value = (\<lambda>d. Py 10),
              is_expired = (\<lambda>d. False), cash_to_date = (\<lambda>a b. 0),
              metric_method = (\<lambda>m. if m = YTM then Some (\<lambda>d yc mp. Py 0.05) else None)\<rparr>"



definition stock_X :: security where
  "stock_X = \<lparr>ts_name = Some ''X'', name = Some ''Stock X'', sec_value = (\<lambda>d. Py 50),
               is_expired = (\<lambda>d. False), cash_to_date = (\<lambda>a b. 0),
               metric_method = (\<lambda>m. None)\<rparr>"

definition zero_value_portfolio :: portfolio where
  "zero_value_portfolio =
     \<lparr>positions = [(0, [(''USD'', - 500), (''X'', 10)])],
      trades = [(0, [(''X'', \<lparr>qty = 10, price = 50\<rparr>)])], currency = ''USD'',
      security_objects = [stock_X]\<rparr>"

definition nan_bond :: security where
  "nan_bond = \<lparr>ts_name = Some ''N'', name = None, sec_value = (\<lambda>d. NaN),
                is_expired = (\<lambda>d. False), cash_to_date = (\<lambda>a b. 0),
                metric_method = (\<lambda>m. Some (\<lambda>d yc mp. NaN))\<rparr>"

definition mixed_portfolio :: portfolio where
  "mixed_portfolio =
     \<lparr>positions = [(0, [(''USD'', 100), (''X'', 2), (''N'', 5), (''A'', 1)])], trades = [],
      currency = ''USD'', security_objects = [stock_X, nan_bond, bond_A]\<rparr>"

definition orphan_portfolio :: portfolio where
  "orphan_portfolio =
     \<lparr>positions = [(0, [(''USD'', 100), (''X'', 2), (''Y'', 1)])], trades = [],
      currency = ''USD'', security_objects = [stock_X]\<rparr>"

definition seeded_portfolio :: portfolio where
  "seeded_portfolio =
     \<lparr>positions = [(0, [(''X'', 10)])], trades = [], currency = ''USD'',
      security_objects = [stock_X]\<rparr>"

definition note_M :: security where
  "note_M = \<lparr>ts_name = Some ''M'', name = None, sec_value = (\<lambda>d. Py 100),
              is_expired = (\<lambda>d. 5 \<le> d), cash_to_date = (\<lambda>a b. 2),
              metric_method = (\<lambda>m. None)\<rparr>"

definition expiring_portfolio :: portfolio where
  "expiring_portfolio =
     \<lparr>positions = [(0, [(''M'', 3), (''X'', 10)])], trades = [], currency = ''USD'',
      security_objects = [note_M, stock_X]\<rparr>"

definition stock_R :: security where
  "stock_R = \<lparr>ts_name = Some ''R'', name = None,
               sec_value = (\<lambda>d. if d < 3 then Py 100 else Py 110),
               is_expired = (\<lambda>d. False), cash_to_date = (\<lambda>a b. 0),
               metric_method = (\<lambda>m. None)\<rparr>"

definition cash_USD :: security where
  "cash_USD = \<lparr>ts_name = Some ''USD'', name = None, sec_value = (\<lambda>d. Py 1),
                is_expired = (\<lambda>d. False), cash_to_date = (\<lambda>a b. 0),
                metric_method = (\<lambda>m. None)\<rparr>"

definition coupon_bond :: security where
  "coupon_bond = \<lparr>ts_name = Some ''C'', name = None, sec_value = (\<lambda>d. Py 100),
                   is_expired = (\<lambda>d. 50 \<le> d), cash_to_date = (\<lambda>a b. 3),
                   metric_method = (\<lambda>m. None)\<rparr>"

definition rising_portfolio :: portfolio where
  "rising_portfolio =
     \<lparr>positions = [(0, [(''R'', 1)])], trades = [], currency = ''USD'',
      security_objects = [stock_R]\<rparr>"

definition coupon_portfolio :: portfolio where
  "coupon_portfolio =
     \<lparr>positions = [(0, [(''USD'', 40), (''C'', 2)])], trades = [], currency = ''USD'',
      security_objects = [cash_USD, coupon_bond]\<rparr>"

text \<open>Whether a weighted result is a finite number.\<close>

fun finite_w :: "weighted \<Rightarrow> bool" where
  "finite_w (Finite x) = True"
| "finite_w w = False"

section \<open>Properties\<close>

subsection \<open>The nearest earlier date\<close>

lemma find_lt_none:
  assumes "\<forall>k\<in>set ks. d \<le> k"
  shows "find_lt d (sort ks) = Inl ValueError"
proof -
  have "takeWhile (\<lambda>y. y < d) (sort ks) = []"
    using assms by (cases "sort ks") (auto simp: takeWhile_eq_Nil_iff dest!: arg_cong[where f=set])
  then show ?thesis by (simp add: find_lt_def bisect_left_def)
qed

lemma takeWhile_sorted_filter:
  "sorted xs \<Longrightarrow> takeWhile (\<lambda>y. y < (d::int)) xs = filter (\<lambda>y. y < d) xs"
  by (induction xs) (auto intro!: filter_False[symmetric])

lemma sorted_le_last: "sorted (t::int list) \<Longrightarrow> x \<in> set t \<Longrightarrow> x \<le> last t"
  by (induction t) auto

lemma find_lt_nearest:
  assumes "prev \<in> set ks" "prev < d" "\<forall>k\<in>set ks. k < d \<longrightarrow> k \<le> prev"
  shows "find_lt d (sort ks) = Inr prev"
proof -
  let ?xs = "sort ks"
  let ?t = "takeWhile (\<lambda>y. y < d) ?xs"
  have t: "?t = filter (\<lambda>y. y < d) ?xs" by (rule takeWhile_sorted_filter) simp
  have mem: "prev \<in> set ?t" using assms by (simp add: t)
  then have ne: "?t \<noteq> []" by auto
  have st: "sorted ?t" by (simp add: sorted_takeWhile)
  have "last ?t \<le> prev" using assms(3) ne last_in_set[OF ne] by (auto simp: t)
  moreover have "prev \<le> last ?t" using st mem by (rule sorted_le_last)
  ultimately have l: "last ?t = prev" by simp
  have "?xs ! (length ?t - 1) = ?t ! (length ?t - 1)"
    using ne by (simp add: takeWhile_nth)
  also have "\<dots> = last ?t" using ne by (simp add: last_conv_nth)
  finally show ?thesis using ne l by (simp add: find_lt_def bisect_left_def Let_def)
qed

lemma map_of_None_keys: "map_of al k = None \<longleftrightarrow> k \<notin> set (map fst al)"
  by (simp add: map_of_eq_None_iff)

subsection \<open>Trade merging\<close>

text \<open>
  Claim C5. \<open>merge_trades\<close> is commutative in its two trades; when the quantities do
  not sum to 0 the merged trade has the summed quantity and the quantity-weighted
  average price; merging (qty 10, price 100) with (qty 5, price 110) gives qty 15 and
  price 310/3, within 0.01 of 103.33; and when the quantities sum to exactly 0 the
  merge raises \<open>ZeroDivisionError\<close> (the NumericFailure) and returns no trade.
\<close>

theorem merge_trades_weighted_average:
  "merge_trades a b = merge_trades b a
   \<and> (qty a + qty b \<noteq> 0 \<longrightarrow>
        merge_trades a b =
          Inr \<lparr>qty = qty a + qty b,
               price = (qty a * price a + qty b * price b) / (qty a + qty b)\<rparr>)
   \<and> merge_trades \<lparr>qty = 10, price = 100\<rparr> \<lparr>qty = 5, price = 110\<rparr>
        = Inr \<lparr>qty = 15, price = 310 / 3\<rparr>
   \<and> \<bar>(310 :: real) / 3 - 103.33\<bar> < 0.01
   \<and> (qty a + qty b = 0 \<longrightarrow> merge_trades a b = Inl ZeroDivisionError)"
  by (simp add: merge_trades_def add.commute)

theorem merge_trades_weighted_average_witness:
  "merge_trades \<lparr>qty = 2, price = 4\<rparr> \<lparr>qty = 6, price = 8\<rparr> = Inr \<lparr>qty = 8, price = 7\<rparr>
   \<and> merge_trades \<lparr>qty = 10, price = 100\<rparr> \<lparr>qty = - 10, price = 90\<rparr> = Inl ZeroDivisionError"
proof
  show "merge_trades \<lparr>qty = 2, price = 4\<rparr> \<lparr>qty = 6, price = 8\<rparr> = Inr \<lparr>qty = 8, price = 7\<rparr>"
    using merge_trades_weighted_average
      [of "\<lparr>qty = 2, price = 4\<rparr>" "\<lparr>qty = 6, price = 8\<rparr>", THEN conjunct2, THEN conjunct1]
    by simp
  show "merge_trades \<lparr>qty = 10, price = 100\<rparr> \<lparr>qty = - 10, price = 90\<rparr> = Inl ZeroDivisionError"
    using merge_trades_weighted_average
      [of "\<lparr>qty = 10, price = 100\<rparr>" "\<lparr>qty = - 10, price = 90\<rparr>",
       THEN conjunct2, THEN conjunct2, THEN conjunct2, THEN conjunct2]
    by simp
qed

subsection \<open>Queries before the first ledger entry\<close>

text \<open>
  Claim C6. When every date of the ledger is strictly after \<open>d\<close> (no entry at or
  before \<open>d\<close>; an empty ledger included), \<open>carry_to\<close> raises the \<open>ValueError\<close> of
  \<open>find_lt\<close> (the StructuralFailure), and so do \<open>value\<close> and each of the nine metric
  queries at \<open>d\<close>, whatever the instruments and \<open>kwargs\<close>.
\<close>

theorem query_before_first_entry_fails:
  assumes "\<forall>k\<in>set (map fst (positions p)). d < k"
  shows "carry_to p d so = Inl ValueError
         \<and> portfolio_value p d so = Inl ValueError
         \<and> metric_query m p d so kw = Inl ValueError"
proof -
  have notin: "map_of (positions p) d = None"
    using assms by (auto simp: map_of_None_keys)
  have "\<forall>k\<in>set (map fst (positions p)). d \<le> k"
    using assms by auto
  then have f: "find_lt d (sort (map fst (positions p))) = Inl ValueError"
    by (rule find_lt_none)
  have c: "carry_to p d so' = Inl ValueError" for so'
    using notin f by (simp add: carry_to_def)
  show ?thesis
    by (simp add: c portfolio_value_def metric_query_def)
qed

theorem query_before_first_entry_fails_witness:
  "carry_to \<lparr>positions = [(5, [(''X'', 1)])], trades = [], currency = ''USD'',
             security_objects = []\<rparr> 3 None = Inl ValueError
   \<and> metric_query OAS \<lparr>positions = [(5, [(''X'', 1)])], trades = [], currency = ''USD'',
             security_objects = []\<rparr> 3 None
        \<lparr>yield_curve_timeseries = None, model_params = None\<rparr> = Inl ValueError"
  using query_before_first_entry_fails
    [of "\<lparr>positions = [(5, [(''X'', 1)])], trades = [], currency = ''USD'',
          security_objects = []\<rparr>" 3 None OAS
        "\<lparr>yield_curve_timeseries = None, model_params = None\<rparr>"]
  by simp

subsection \<open>The carry-forward loop\<close>

lemma add_position_fields [simp]:
  "currency (add_position p d n q) = currency p"
  "trades (add_position p d n q) = trades p"
  "security_objects (add_position p d n q) = security_objects p"
  by (simp_all add: add_position_def split: option.splits)

lemma add_position_other_date:
  "d' \<noteq> d \<Longrightarrow> map_of (positions (add_position p d n q)) d' = map_of (positions p) d'"
  by (simp add: add_position_def update_conv' split: option.splits)

lemma add_position_this_date:
  "map_of (positions (add_position p d n q)) d =
     Some (case map_of (positions p) d of None \<Rightarrow> [(n, q)]
           | Some snap \<Rightarrow> AList.update n (dict_get snap n + q) snap)"
  by (simp add: add_position_def update_conv' split: option.splits)

lemma held_qty_add_position:
  "held_qty (add_position p d n q) d n' = held_qty p d n' + (if n' = n then q else 0)"
  by (simp add: held_qty_def add_position_this_date dict_get_def update_conv' split: option.splits)

lemma held_qty_add_position_other:
  "d' \<noteq> d \<Longrightarrow> held_qty (add_position p d n q) d' n' = held_qty p d' n'"
  by (simp add: held_qty_def add_position_other_date)

lemma held_names_add_position:
  "held_names (add_position p d n q) d = insert n (held_names p d)"
  by (auto simp add: held_names_def add_position_this_date dom_update split: option.splits)

lemma carry_loop_fields:
  "carry_loop p prev d objs items = Inr p' \<Longrightarrow>
     currency p' = currency p \<and> trades p' = trades p \<and> security_objects p' = security_objects p"
  by (induction items arbitrary: p) (auto simp: Let_def split: option.splits if_splits)


lemma carry_loop_resolves:
  "carry_loop p prev d objs items = Inr p' \<Longrightarrow> n \<in> set (map fst items) \<Longrightarrow> get_security n objs \<noteq> None"
proof (induction items arbitrary: p)
  case Nil
  then show ?case by simp
next
  case (Cons a items)
  obtain m q where a: "a = (m, q)" by (cases a)
  from Cons.prems a obtain s where s: "get_security m objs = Some s"
    by (auto split: option.splits)
  define p1 where "p1 = add_position p d (currency p) (cash_to_date s prev d)"
  define p2 where "p2 = (if \<not> is_expired s d then add_position p1 d m q else p1)"
  have run: "carry_loop p2 prev d objs items = Inr p'"
    using Cons.prems a s by (simp add: p1_def p2_def Let_def split: if_splits)
  show ?case
    using Cons.IH[OF run] Cons.prems(2) s a by auto
qed

lemma carry_loop_returns:
  "\<forall>n\<in>set (map fst items). get_security n objs \<noteq> None \<Longrightarrow> \<exists>p'. carry_loop p prev d objs items = Inr p'"
  by (induction items arbitrary: p) (auto simp: Let_def split: option.splits if_splits)

lemma carry_loop_held_qty:
  "carry_loop p prev d objs items = Inr p' \<Longrightarrow>
     held_qty p' d n = held_qty p d n
       + (if n = currency p then (\<Sum>(m, q)\<leftarrow>items. accrual objs prev d m) else 0)
       + (\<Sum>(m, q)\<leftarrow>items. if m = n \<and> \<not> expired objs d m then q else 0)"
proof (induction items arbitrary: p)
  case Nil
  then show ?case by simp
next
  case (Cons a items)
  obtain m q where a: "a = (m, q)" by (cases a)
  from Cons.prems a obtain s where s: "get_security m objs = Some s"
    by (auto split: option.splits)
  define p1 where "p1 = add_position p d (currency p) (cash_to_date s prev d)"
  define p2 where "p2 = (if \<not> is_expired s d then add_position p1 d m q else p1)"
  have run: "carry_loop p2 prev d objs items = Inr p'"
    using Cons.prems a s by (simp add: p1_def p2_def Let_def split: if_splits)
  have cur: "currency p2 = currency p" by (simp add: p1_def p2_def)
  have q2: "held_qty p2 d n = held_qty p d n + (if n = currency p then accrual objs prev d m else 0)
      + (if m = n \<and> \<not> expired objs d m then q else 0)"
    using s by (auto simp add: p1_def p2_def held_qty_add_position accrual_def expired_def)
  show ?case
    using Cons.IH[OF run] by (simp add: cur q2 a)
qed

lemma carry_loop_held_names:
  "carry_loop p prev d objs items = Inr p' \<Longrightarrow>
     held_names p' d = held_names p d \<union> (if items = [] then {} else {currency p})
        \<union> {m \<in> set (map fst items). \<not> expired objs d m}"
proof (induction items arbitrary: p)
  case Nil
  then show ?case by simp
next
  case (Cons a items)
  obtain m q where a: "a = (m, q)" by (cases a)
  from Cons.prems a obtain s where s: "get_security m objs = Some s"
    by (auto split: option.splits)
  define p1 where "p1 = add_position p d (currency p) (cash_to_date s prev d)"
  define p2 where "p2 = (if \<not> is_expired s d then add_position p1 d m q else p1)"
  have run: "carry_loop p2 prev d objs items = Inr p'"
    using Cons.prems a s by (simp add: p1_def p2_def Let_def split: if_splits)
  have cur: "currency p2 = currency p" by (simp add: p1_def p2_def)
  have n2: "held_names p2 d = held_names p d \<union> {currency p} \<union> (if expired objs d m then {} else {m})"
    using s by (auto simp add: p1_def p2_def held_names_add_position expired_def)
  show ?case
    using Cons.IH[OF run] by (auto simp add: cur n2 a)
qed

subsection \<open>Valuation and the weighted sum\<close>

lemma carry_to_materialized:
  "map_of (positions p) d = Some snap \<Longrightarrow> carry_to p d so = Inr p"
  by (simp add: carry_to_def)

lemma objs_or_own_Some [simp]: "objs_or_own p (Some objs) = objs"
  by (simp add: objs_or_own_def)

lemma portfolio_value_materialized:
  "map_of (positions p) d = Some snap \<Longrightarrow>
     portfolio_value p d so =
       (case value_loop (currency p) (objs_or_own p so) d snap of
          Inl e \<Rightarrow> Inl e
        | Inr vd \<Rightarrow> Inr ((sum_list (map snd vd), vd), p))"
  by (simp add: portfolio_value_def carry_to_materialized)

lemma value_loop_keys:
  "value_loop cur objs d snap = Inr vd \<Longrightarrow> map fst vd = map fst snap"
  by (induction snap arbitrary: vd) (auto split: sum.splits)

lemma value_loop_entries:
  "value_loop cur objs d snap = Inr vd \<Longrightarrow>
     vd = map (\<lambda>(n, q). (n, (case unit_value cur objs d n of Inl e \<Rightarrow> 0 | Inr u \<Rightarrow> u) * q)) snap"
  by (induction snap arbitrary: vd) (auto split: sum.splits)

lemma value_loop_returns:
  "\<forall>n\<in>set (map fst snap). n \<noteq> cur \<longrightarrow> get_security n objs \<noteq> None \<Longrightarrow>
     \<exists>vd. value_loop cur objs d snap = Inr vd"
  by (induction snap) (auto simp: unit_value_def split: sum.splits option.splits num.splits)

lemma map_of_const_map:
  "n \<in> set (map fst snap) \<Longrightarrow> map_of (map (\<lambda>(n, q). (n, f n)) snap) n = Some (f n)"
  by (induction snap) auto

lemma weighted_sum_nonzero:
  assumes "v \<noteq> 0"
      and "\<forall>n\<in>set ns. map_of vd n \<noteq> None \<and> map_of rd n \<noteq> None"
  shows "weighted_sum vd rd v np ns
           = Inr (Finite (\<Sum>n\<leftarrow>ns. the (map_of vd n) * the (map_of rd n) / v))"
  using assms by (induction ns) (auto simp: quotient_def)

lemma weighted_sum_zero_raises:
  assumes "\<exists>n\<in>set ns. \<not> np n"
      and "\<forall>n\<in>set ns. map_of vd n \<noteq> None \<and> map_of rd n \<noteq> None"
  shows "weighted_sum vd rd 0 np ns = Inl ZeroDivisionError"
  using assms
proof (induction ns)
  case Nil
  then show ?case by simp
next
  case (Cons n ns)
  from Cons.prems obtain a b where ab: "map_of vd n = Some a" "map_of rd n = Some b" by auto
  show ?case
  proof (cases "np n")
    case False
    then show ?thesis using ab by simp
  next
    case True
    then have "\<exists>n\<in>set ns. \<not> np n" using Cons.prems(1) by auto
    then have "weighted_sum vd rd 0 np ns = Inl ZeroDivisionError"
      using Cons.IH Cons.prems(2) by simp
    then show ?thesis using ab by simp
  qed
qed

lemma w_add_commute: "w_add a b = w_add b a"
  by (cases a; cases b) simp_all

lemma w_add_assoc: "w_add (w_add a b) c = w_add a (w_add b c)"
  by (cases a; cases b; cases c) simp_all

lemma quotient_zero_not_finite: "\<not> finite_w (quotient x 0)"
  by (simp add: quotient_def)

lemma w_add_not_finite: "\<not> finite_w a \<Longrightarrow> \<not> finite_w (w_add a b)"
  by (cases a; cases b) simp_all

lemma weighted_sum_zero_returns:
  assumes "\<forall>n\<in>set ns. np n"
      and "\<forall>n\<in>set ns. map_of vd n \<noteq> None \<and> map_of rd n \<noteq> None"
  shows "\<exists>w. weighted_sum vd rd 0 np ns = Inr w \<and> (ns \<noteq> [] \<longrightarrow> \<not> finite_w w)"
  using assms
proof (induction ns)
  case Nil
  then show ?case by simp
next
  case (Cons n ns)
  then obtain w where w: "weighted_sum vd rd 0 np ns = Inr w" by auto
  from Cons.prems obtain a b where ab: "map_of vd n = Some a" "map_of rd n = Some b" by auto
  have "weighted_sum vd rd 0 np (n # ns) = Inr (w_add (quotient (a * b) 0) w)"
    using Cons.prems(1) w ab by simp
  then show ?case using w_add_not_finite[OF quotient_zero_not_finite] by simp
qed



subsection \<open>The weighted metric queries\<close>

lemma metric_query_after_carry:
  assumes "carry_to p d (Some (objs_or_own p so)) = Inr p1"
      and "map_of (positions p1) d = Some snap"
      and "value_loop (currency p1) (objs_or_own p so) d snap = Inr value_dict"
      and "metric_args m kw d = Inr (yc, mp)"
  shows "metric_query m p d so kw =
           (case weighted_sum value_dict
                   (map (\<lambda>(n, q). (n, unit_result m (objs_or_own p so) d yc mp n)) snap)
                   (sum_list (map snd value_dict))
                   (np_term m (currency p1) (objs_or_own p so) d yc mp snap) (map fst snap) of
              Inl e \<Rightarrow> Inl e
            | Inr r \<Rightarrow>
                Inr ((r, map (\<lambda>(n, q). (n, unit_result m (objs_or_own p so) d yc mp n)) snap), p1))"
  using assms
  by (simp add: metric_query_def portfolio_value_materialized[OF assms(2)] Let_def)

lemma metric_query_materialized:
  assumes "map_of (positions p) d = Some snap"
      and "value_loop (currency p) (objs_or_own p so) d snap = Inr value_dict"
      and "metric_args m kw d = Inr (yc, mp)"
  shows "metric_query m p d so kw =
           (case weighted_sum value_dict
                   (map (\<lambda>(n, q). (n, unit_result m (objs_or_own p so) d yc mp n)) snap)
                   (sum_list (map snd value_dict))
                   (np_term m (currency p) (objs_or_own p so) d yc mp snap) (map fst snap) of
              Inl e \<Rightarrow> Inl e
            | Inr r \<Rightarrow>
                Inr ((r, map (\<lambda>(n, q). (n, unit_result m (objs_or_own p so) d yc mp n)) snap), p))"
  using carry_to_materialized[OF assms(1)] assms by (rule metric_query_after_carry)

lemma keys_lookups:
  assumes "value_loop cur objs d snap = Inr value_dict"
  shows "\<forall>n\<in>set (map fst snap).
           map_of value_dict n \<noteq> None \<and> map_of (map (\<lambda>(n, q). (n, f n)) snap) n \<noteq> None"
proof
  fix n assume n: "n \<in> set (map fst snap)"
  then have "n \<in> set (map fst value_dict)" using value_loop_keys[OF assms] by simp
  then have "map_of value_dict n \<noteq> None" by (simp add: map_of_eq_None_iff)
  then show "map_of value_dict n \<noteq> None \<and> map_of (map (\<lambda>(n, q). (n, f n)) snap) n \<noteq> None"
    using map_of_const_map[OF n, of f] by simp
qed





subsection \<open>A total value of 0\<close>

text \<open>
  Claim C7, as the source has it. At a date whose snapshot is not empty, with the
  per-name values computed by \<open>value\<close> summing to 0 and the \<open>kwargs\<close> the metric
  reads supplied: \<open>value\<close> returns the total 0 with its breakdown; a weighted metric
  query raises the \<open>ZeroDivisionError\<close> of the division by the total (the
  DegenerateValuationError) when the term of some held name is computed on plain
  numbers, as every term is when no instrument returns a \<open>numpy\<close> scalar; and it returns
  a weighted result that is not a finite number, with the breakdown, when every term
  is computed by \<open>numpy\<close>, as every term is when the value of some held instrument is a
  \<open>numpy\<close> scalar.
\<close>

theorem zero_total_value_division:
  assumes "map_of (positions p) d = Some snap"
      and "snap \<noteq> []"
      and "value_loop (currency p) (objs_or_own p so) d snap = Inr value_dict"
      and "(\<Sum>(n, v)\<leftarrow>value_dict. v) = 0"
      and "metric_args m kw d = Inr (yc, mp)"
  shows "portfolio_value p d so = Inr ((0, value_dict), p)
       \<and> ((\<exists>n\<in>set (map fst snap). \<not> np_term m (currency p) (objs_or_own p so) d yc mp snap n)
            \<longrightarrow> metric_query m p d so kw = Inl ZeroDivisionError)
       \<and> ((\<forall>n\<in>set (map fst snap). np_term m (currency p) (objs_or_own p so) d yc mp snap n)
            \<longrightarrow> (\<exists>w. metric_query m p d so kw =
                       Inr ((w, map (\<lambda>(n, q). (n, unit_result m (objs_or_own p so) d yc mp n)) snap), p)
                     \<and> \<not> finite_w w))
       \<and> ((\<forall>n\<in>set (map fst snap). \<not> np_unit_value (currency p) (objs_or_own p so) d n
                \<and> \<not> np_unit_result m (objs_or_own p so) d yc mp n)
            \<longrightarrow> metric_query m p d so kw = Inl ZeroDivisionError)
       \<and> ((\<exists>n\<in>set (map fst snap). np_unit_value (currency p) (objs_or_own p so) d n)
            \<longrightarrow> (\<exists>w. metric_query m p d so kw =
                       Inr ((w, map (\<lambda>(n, q). (n, unit_result m (objs_or_own p so) d yc mp n)) snap), p)
                     \<and> \<not> finite_w w))"
proof -
  let ?objs = "objs_or_own p so"
  let ?np = "np_term m (currency p) ?objs d yc mp snap"
  let ?rd = "map (\<lambda>(n, q). (n, unit_result m ?objs d yc mp n)) snap"
  have v: "sum_list (map snd value_dict) = 0"
    using assms(4) by (simp add: case_prod_unfold)
  have ne: "map fst snap \<noteq> []" using assms(2) by simp
  note mq = metric_query_materialized[OF assms(1,3,5), unfolded v]
  note lk = keys_lookups[OF assms(3), of "unit_result m ?objs d yc mp"]
  have 1: "portfolio_value p d so = Inr ((0, value_dict), p)"
    using assms(1,3) by (simp add: portfolio_value_materialized v)
  have raises: "metric_query m p d so kw = Inl ZeroDivisionError"
    if "\<exists>n\<in>set (map fst snap). \<not> ?np n"
  proof -
    have "weighted_sum value_dict ?rd 0 ?np (map fst snap) = Inl ZeroDivisionError"
      using that lk by (rule weighted_sum_zero_raises)
    then show ?thesis using mq by simp
  qed
  have returns: "\<exists>w. metric_query m p d so kw = Inr ((w, ?rd), p) \<and> \<not> finite_w w"
    if allnp: "\<forall>n\<in>set (map fst snap). ?np n"
  proof -
    obtain w where "weighted_sum value_dict ?rd 0 ?np (map fst snap) = Inr w" "\<not> finite_w w"
      using weighted_sum_zero_returns[OF allnp lk] ne by blast
    then show ?thesis using mq by simp
  qed
  have plain: "metric_query m p d so kw = Inl ZeroDivisionError"
    if h: "\<forall>n\<in>set (map fst snap). \<not> np_unit_value (currency p) ?objs d n
                \<and> \<not> np_unit_result m ?objs d yc mp n"
  proof -
    obtain n where n: "n \<in> set (map fst snap)" using ne by (cases "map fst snap") auto
    have "\<not> list_ex (np_unit_value (currency p) ?objs d) (map fst snap)"
      using h by (auto simp: list_ex_iff)
    moreover have "\<not> np_unit_result m ?objs d yc mp n" using h n by blast
    ultimately have "\<not> ?np n" by (simp add: np_term_def)
    then show ?thesis using n raises by blast
  qed
  have numpy: "\<exists>w. metric_query m p d so kw = Inr ((w, ?rd), p) \<and> \<not> finite_w w"
    if h: "\<exists>n\<in>set (map fst snap). np_unit_value (currency p) ?objs d n"
  proof -
    have "list_ex (np_unit_value (currency p) ?objs d) (map fst snap)"
      using h by (auto simp: list_ex_iff)
    then have "\<forall>n\<in>set (map fst snap). ?np n" by (simp add: np_term_def)
    then show ?thesis by (rule returns)
  qed
  from 1 raises returns plain numpy show ?thesis by (intro conjI impI)
qed

theorem zero_total_value_division_witness:
  "oas zero_value_portfolio 0 None
     \<lparr>yield_curve_timeseries = Some 7, model_params = Some [(0, 3)]\<rparr> = Inl ZeroDivisionError
   \<and> (\<exists>w. ytm numpy_zero_portfolio 0 None no_kwargs
            = Inr ((w, [(''USD'', 0), (''Q'', 0)]), numpy_zero_portfolio) \<and> \<not> finite_w w)"
proof
  let ?snap = "[(''USD'', - 500 :: real), (''X'', 10)]"
  have o: "objs_or_own zero_value_portfolio None = [stock_X]"
    by (simp add: zero_value_portfolio_def objs_or_own_def)
  have c: "currency zero_value_portfolio = ''USD''" by (simp add: zero_value_portfolio_def)
  have g: "get_security ''USD'' [stock_X] = None" "get_security ''X'' [stock_X] = Some stock_X"
    by (simp_all add: get_security_def stock_X_def)
  have x: "sec_value stock_X 0 = Py 50" "metric_method stock_X OAS = None"
    by (simp_all add: stock_X_def)
  have 1: "map_of (positions zero_value_portfolio) 0 = Some ?snap"
    by (simp add: zero_value_portfolio_def)
  have 2: "?snap \<noteq> []" by simp
  have 3: "value_loop (currency zero_value_portfolio) (objs_or_own zero_value_portfolio None) 0
             ?snap = Inr [(''USD'', - 500), (''X'', 500)]"
    by (simp add: o c unit_value_def g x)
  have 4: "(\<Sum>(n, v)\<leftarrow>[(''USD'', - 500 :: real), (''X'', 500)]. v) = 0" by simp
  have 5: "metric_args OAS \<lparr>yield_curve_timeseries = Some 7, model_params = Some [(0, 3)]\<rparr> 0
             = Inr (Some 7, Some 3)" by simp
  have plain: "\<forall>n\<in>set (map fst ?snap).
      \<not> np_unit_value (currency zero_value_portfolio) (objs_or_own zero_value_portfolio None) 0 n
      \<and> \<not> np_unit_result OAS (objs_or_own zero_value_portfolio None) 0 (Some 7) (Some 3) n"
    by (simp add: o c np_unit_value_def np_unit_result_def g x)
  from zero_total_value_division [OF 1 2 3 4 5, THEN conjunct2, THEN conjunct2, THEN conjunct2,
      THEN conjunct1, THEN mp, OF plain]
  show "oas zero_value_portfolio 0 None
     \<lparr>yield_curve_timeseries = Some 7, model_params = Some [(0, 3)]\<rparr> = Inl ZeroDivisionError"
    by (simp add: oas_def)
next
  let ?snap = "[(''USD'', - 500 :: real), (''Q'', 10)]"
  have o: "objs_or_own numpy_zero_portfolio None = [stock_Q]"
    by (simp add: numpy_zero_portfolio_def objs_or_own_def)
  have c: "currency numpy_zero_portfolio = ''USD''" by (simp add: numpy_zero_portfolio_def)
  have g: "get_security ''USD'' [stock_Q] = None" "get_security ''Q'' [stock_Q] = Some stock_Q"
    by (simp_all add: get_security_def stock_Q_def)
  have x: "sec_value stock_Q 0 = Np 50" "metric_method stock_Q YTM = None"
    by (simp_all add: stock_Q_def)
  have 1: "map_of (positions numpy_zero_portfolio) 0 = Some ?snap"
    by (simp add: numpy_zero_portfolio_def)
  have 2: "?snap \<noteq> []" by simp
  have 3: "value_loop (currency numpy_zero_portfolio) (objs_or_own numpy_zero_portfolio None) 0
             ?snap = Inr [(''USD'', - 500), (''Q'', 500)]"
    by (simp add: o c unit_value_def g x)
  have 4: "(\<Sum>(n, v)\<leftarrow>[(''USD'', - 500 :: real), (''Q'', 500)]. v) = 0" by simp
  have 5: "metric_args YTM no_kwargs 0 = Inr (None, None)" by simp
  have np: "\<exists>n\<in>set (map fst ?snap).
      np_unit_value (currency numpy_zero_portfolio) (objs_or_own numpy_zero_portfolio None) 0 n"
    by (simp add: o c np_unit_value_def g x)
  have ur: "unit_result YTM [stock_Q] 0 None None ''USD'' = 0"
    "unit_result YTM [stock_Q] 0 None None ''Q'' = 0"
    by (simp_all add: unit_result_def g x)
  from zero_total_value_division [OF 1 2 3 4 5, THEN conjunct2, THEN conjunct2, THEN conjunct2,
      THEN conjunct2, THEN mp, OF np]
  show "\<exists>w. ytm numpy_zero_portfolio 0 None no_kwargs
            = Inr ((w, [(''USD'', 0), (''Q'', 0)]), numpy_zero_portfolio) \<and> \<not> finite_w w"
    by (simp add: ytm_def o ur)
qed

theorem zero_total_value_returns:
  "portfolio_value zero_value_portfolio 0 None
     = Inr ((0, [(''USD'', - 500), (''X'', 500)]), zero_value_portfolio)
   \<and> portfolio_value numpy_zero_portfolio 0 None
     = Inr ((0, [(''USD'', - 500), (''Q'', 500)]), numpy_zero_portfolio)
   \<and> ytm numpy_zero_portfolio 0 None no_kwargs
     = Inr ((NotANumber, [(''USD'', 0), (''Q'', 0)]), numpy_zero_portfolio)"
  by (simp add: ytm_def metric_query_def portfolio_value_def carry_to_def zero_value_portfolio_def
      numpy_zero_portfolio_def objs_or_own_def unit_value_def unit_result_def get_security_def
      stock_X_def stock_Q_def np_term_def np_unit_value_def np_unit_result_def quotient_def)

subsection \<open>Failures of one instrument\<close>

lemma value_prints_filter:
  "value_prints cur objs d snap =
     map (\<lambda>(n, q). Null_value n d)
       (filter (\<lambda>(n, q). n \<noteq> cur \<and> (\<exists>s. get_security n objs = Some s \<and> sec_value s d = NaN))
          snap)"
  by (induction snap) (auto simp: value_print_def split: option.splits num.splits)

lemma metric_prints_filter:
  "metric_prints m objs d yc mp snap =
     map (\<lambda>(n, q). Null_metric m n d)
       (filter (\<lambda>(n, q). \<exists>s f. get_security n objs = Some s \<and> metric_method s m = Some f
                              \<and> f d yc mp = NaN) snap)"
  by (induction snap) (auto simp: metric_print_def split: option.splits num.splits)

lemma value_printed_materialized:
  assumes "map_of (positions p) d = Some snap"
      and "value_loop (currency p) (objs_or_own p so) d snap = Inr value_dict"
  shows "value_printed p d so = Inr (value_prints (currency p) (objs_or_own p so) d snap)"
  using assms by (simp add: value_printed_def portfolio_value_materialized[OF assms(1)])

lemma metric_printed_returned:
  assumes "metric_query m p d so kw = Inr (r, p)"
      and "map_of (positions p) d = Some snap"
      and "metric_args m kw d = Inr (yc, mp)"
  shows "metric_printed m p d so kw =
           Inr (value_prints (currency p) (objs_or_own p so) d snap
                @ metric_prints m (objs_or_own p so) d yc mp snap)"
  using assms by (simp add: metric_printed_def)

text \<open>
  Claim C2, as the source has it. At a materialized date where every held name other
  than the currency resolves to an instrument, \<open>value\<close> returns a value for every held
  name; and, the \<open>kwargs\<close> the metric reads supplied and the total not 0, the metric
  query returns a finite weighted result and a breakdown over every held name. In
  them a unit value or a metric that is not-a-number counts 0 and has one printed line,
  naming the instrument and the date; a name that resolves to no instrument in the
  metric loop (the currency, usually) and an instrument without the metric method
  count 0 and have no printed line. A held name other than the currency that resolves
  to no instrument is outside this statement: \<open>value\<close> calls the sentinel outside any
  \<open>try\<close>.
\<close>

theorem instrument_failure_substituted:
  assumes "map_of (positions p) d = Some snap"
      and "\<forall>n\<in>set (map fst snap). n \<noteq> currency p \<longrightarrow> get_security n (objs_or_own p so) \<noteq> None"
      and "metric_args m kw d = Inr (yc, mp)"
  shows "(\<exists>value_dict.
           portfolio_value p d so = Inr ((sum_list (map snd value_dict), value_dict), p)
           \<and> map fst value_dict = map fst snap
           \<and> (sum_list (map snd value_dict) \<noteq> 0 \<longrightarrow>
                (\<exists>r. metric_query m p d so kw =
                   Inr ((Finite r,
                         map (\<lambda>(n, q). (n, unit_result m (objs_or_own p so) d yc mp n)) snap), p))
                \<and> metric_printed m p d so kw =
                   Inr (map (\<lambda>(n, q). Null_value n d)
                          (filter (\<lambda>(n, q). n \<noteq> currency p
                                     \<and> (\<exists>s. get_security n (objs_or_own p so) = Some s
                                              \<and> sec_value s d = NaN)) snap)
                        @ map (\<lambda>(n, q). Null_metric m n d)
                            (filter (\<lambda>(n, q). \<exists>s f. get_security n (objs_or_own p so) = Some s
                                        \<and> metric_method s m = Some f \<and> f d yc mp = NaN) snap))))
       \<and> value_printed p d so =
            Inr (map (\<lambda>(n, q). Null_value n d)
                   (filter (\<lambda>(n, q). n \<noteq> currency p
                              \<and> (\<exists>s. get_security n (objs_or_own p so) = Some s
                                       \<and> sec_value s d = NaN)) snap))
       \<and> (get_security n (objs_or_own p so) = None
            \<longrightarrow> unit_result m (objs_or_own p so) d yc mp n = 0
                \<and> metric_print m (objs_or_own p so) d yc mp n = [])
       \<and> (get_security n (objs_or_own p so) = Some s \<and> metric_method s m = None
            \<longrightarrow> unit_result m (objs_or_own p so) d yc mp n = 0
                \<and> metric_print m (objs_or_own p so) d yc mp n = [])
       \<and> (get_security n (objs_or_own p so) = Some s \<and> metric_method s m = Some f
              \<and> f d yc mp = NaN
            \<longrightarrow> unit_result m (objs_or_own p so) d yc mp n = 0
                \<and> metric_print m (objs_or_own p so) d yc mp n = [Null_metric m n d])
       \<and> (n \<noteq> currency p \<and> get_security n (objs_or_own p so) = Some s \<and> sec_value s d = NaN
            \<longrightarrow> unit_value (currency p) (objs_or_own p so) d n = Inr 0
                \<and> value_print (currency p) (objs_or_own p so) d n = [Null_value n d])"
proof -
  let ?objs = "objs_or_own p so"
  let ?rd = "map (\<lambda>(n, q). (n, unit_result m ?objs d yc mp n)) snap"
  let ?vout = "map (\<lambda>(n, q). Null_value n d)
                 (filter (\<lambda>(n, q). n \<noteq> currency p
                            \<and> (\<exists>s. get_security n ?objs = Some s \<and> sec_value s d = NaN)) snap)"
  let ?mout = "map (\<lambda>(n, q). Null_metric m n d)
                 (filter (\<lambda>(n, q). \<exists>s f. get_security n ?objs = Some s
                            \<and> metric_method s m = Some f \<and> f d yc mp = NaN) snap)"
  obtain value_dict where vd: "value_loop (currency p) ?objs d snap = Inr value_dict"
    using value_loop_returns[OF assms(2)] by blast
  have keys: "map fst value_dict = map fst snap" using vd by (rule value_loop_keys)
  have pv: "portfolio_value p d so = Inr ((sum_list (map snd value_dict), value_dict), p)"
    using assms(1) vd by (simp add: portfolio_value_materialized)
  have mq: "(\<exists>r. metric_query m p d so kw = Inr ((Finite r, ?rd), p))
            \<and> metric_printed m p d so kw = Inr (?vout @ ?mout)"
    if nz: "sum_list (map snd value_dict) \<noteq> 0"
  proof -
    have "weighted_sum value_dict ?rd (sum_list (map snd value_dict))
            (np_term m (currency p) ?objs d yc mp snap) (map fst snap)
          = Inr (Finite (\<Sum>n\<leftarrow>map fst snap. the (map_of value_dict n) * the (map_of ?rd n)
                   / sum_list (map snd value_dict)))"
      using nz keys_lookups[OF vd] by (rule weighted_sum_nonzero)
    then obtain r where r: "metric_query m p d so kw = Inr ((Finite r, ?rd), p)"
      using metric_query_materialized[OF assms(1) vd assms(3)] by simp
    have "metric_printed m p d so kw = Inr (?vout @ ?mout)"
      using metric_printed_returned[OF r assms(1,3)]
      by (simp add: value_prints_filter metric_prints_filter)
    with r show ?thesis by blast
  qed
  have 1: "\<exists>value_dict.
           portfolio_value p d so = Inr ((sum_list (map snd value_dict), value_dict), p)
           \<and> map fst value_dict = map fst snap
           \<and> (sum_list (map snd value_dict) \<noteq> 0 \<longrightarrow>
                (\<exists>r. metric_query m p d so kw = Inr ((Finite r, ?rd), p))
                \<and> metric_printed m p d so kw = Inr (?vout @ ?mout))"
    using pv keys mq by blast
  have 2: "value_printed p d so = Inr ?vout"
    using value_printed_materialized[OF assms(1) vd] by (simp add: value_prints_filter)
  have 3: "get_security n ?objs = None \<longrightarrow> unit_result m ?objs d yc mp n = 0
                \<and> metric_print m ?objs d yc mp n = []"
    by (simp add: unit_result_def metric_print_def)
  have 4: "get_security n ?objs = Some s \<and> metric_method s m = None
           \<longrightarrow> unit_result m ?objs d yc mp n = 0 \<and> metric_print m ?objs d yc mp n = []"
    by (simp add: unit_result_def metric_print_def)
  have 5: "get_security n ?objs = Some s \<and> metric_method s m = Some f \<and> f d yc mp = NaN
           \<longrightarrow> unit_result m ?objs d yc mp n = 0
               \<and> metric_print m ?objs d yc mp n = [Null_metric m n d]"
    by (simp add: unit_result_def metric_print_def)
  have 6: "n \<noteq> currency p \<and> get_security n ?objs = Some s \<and> sec_value s d = NaN
           \<longrightarrow> unit_value (currency p) ?objs d n = Inr 0
               \<and> value_print (currency p) ?objs d n = [Null_value n d]"
    by (simp add: unit_value_def value_print_def)
  show ?thesis
    by (intro conjI) (rule 1, rule 2, rule 3, rule 4, rule 5, rule 6)
qed

theorem instrument_failure_substituted_witness:
  "(\<exists>r. ytm mixed_portfolio 0 None no_kwargs =
          Inr ((Finite r, [(''USD'', 0), (''X'', 0), (''N'', 0), (''A'', 0.05)]), mixed_portfolio))
   \<and> portfolio_value mixed_portfolio 0 None =
          Inr ((210, [(''USD'', 100), (''X'', 100), (''N'', 0), (''A'', 10)]), mixed_portfolio)
   \<and> metric_printed YTM mixed_portfolio 0 None no_kwargs
        = Inr [Null_value ''N'' 0, Null_metric YTM ''N'' 0]
   \<and> value_printed mixed_portfolio 0 None = Inr [Null_value ''N'' 0]
   \<and> unit_result YTM [stock_X, nan_bond, bond_A] 0 None None ''USD'' = 0
   \<and> metric_print YTM [stock_X, nan_bond, bond_A] 0 None None ''USD'' = []
   \<and> unit_result YTM [stock_X, nan_bond, bond_A] 0 None None ''X'' = 0
   \<and> metric_print YTM [stock_X, nan_bond, bond_A] 0 None None ''X'' = []
   \<and> unit_result YTM [stock_X, nan_bond, bond_A] 0 None None ''N'' = 0
   \<and> unit_value ''USD'' [stock_X, nan_bond, bond_A] 0 ''N'' = Inr 0"
proof -
  let ?snap = "[(''USD'', 100 :: real), (''X'', 2), (''N'', 5), (''A'', 1)]"
  let ?objs = "[stock_X, nan_bond, bond_A]"
  have o: "objs_or_own mixed_portfolio None = ?objs"
    by (simp add: objs_or_own_def mixed_portfolio_def)
  have c: "currency mixed_portfolio = ''USD''" by (simp add: mixed_portfolio_def)
  have g: "get_security ''USD'' ?objs = None" "get_security ''X'' ?objs = Some stock_X"
    "get_security ''N'' ?objs = Some nan_bond" "get_security ''A'' ?objs = Some bond_A"
    by (simp_all add: get_security_def stock_X_def nan_bond_def bond_A_def)
  have sv: "sec_value stock_X 0 = Py 50" "sec_value nan_bond 0 = NaN" "sec_value bond_A 0 = Py 10"
    "metric_method stock_X YTM = None" "metric_method nan_bond YTM = Some (\<lambda>d yc mp. NaN)"
    "metric_method bond_A YTM = Some (\<lambda>d yc mp. Py 0.05)"
    by (simp_all add: stock_X_def nan_bond_def bond_A_def)
  have 1: "map_of (positions mixed_portfolio) 0 = Some ?snap"
    by (simp add: mixed_portfolio_def)
  have 2: "\<forall>n\<in>set (map fst ?snap). n \<noteq> currency mixed_portfolio
             \<longrightarrow> get_security n (objs_or_own mixed_portfolio None) \<noteq> None"
    by (simp add: o c g)
  have 3: "metric_args YTM no_kwargs 0 = Inr (None, None)" by simp
  note t = instrument_failure_substituted [OF 1 2 3, unfolded o c]
  have pv: "portfolio_value mixed_portfolio 0 None =
          Inr ((210, [(''USD'', 100), (''X'', 100), (''N'', 0), (''A'', 10)]), mixed_portfolio)"
    by (simp add: portfolio_value_materialized[OF 1] o c unit_value_def g sv)
  from t [THEN conjunct1] obtain vd where
    a: "portfolio_value mixed_portfolio 0 None = Inr ((sum_list (map snd vd), vd), mixed_portfolio)"
    and b: "sum_list (map snd vd) \<noteq> 0 \<longrightarrow>
      (\<exists>r. metric_query YTM mixed_portfolio 0 None no_kwargs =
         Inr ((Finite r, map (\<lambda>(n, q). (n, unit_result YTM ?objs 0 None None n)) ?snap),
              mixed_portfolio))
      \<and> metric_printed YTM mixed_portfolio 0 None no_kwargs =
          Inr (map (\<lambda>(n, q). Null_value n 0)
                 (filter (\<lambda>(n, q). n \<noteq> ''USD''
                            \<and> (\<exists>s. get_security n ?objs = Some s \<and> sec_value s 0 = NaN)) ?snap)
               @ map (\<lambda>(n, q). Null_metric YTM n 0)
                   (filter (\<lambda>(n, q). \<exists>s f. get_security n ?objs = Some s
                              \<and> metric_method s YTM = Some f \<and> f 0 None None = NaN) ?snap))"
    by (elim exE conjE) (rule that)
  from a pv have nz: "sum_list (map snd vd) \<noteq> 0" by simp
  from b nz obtain r where r: "metric_query YTM mixed_portfolio 0 None no_kwargs =
         Inr ((Finite r, map (\<lambda>(n, q). (n, unit_result YTM ?objs 0 None None n)) ?snap),
              mixed_portfolio)"
    by blast
  from b nz have mp: "metric_printed YTM mixed_portfolio 0 None no_kwargs
        = Inr [Null_value ''N'' 0, Null_metric YTM ''N'' 0]"
    by (simp add: g sv)
  have vp: "value_printed mixed_portfolio 0 None = Inr [Null_value ''N'' 0]"
    using t [THEN conjunct2, THEN conjunct1] by (simp add: g sv)
  have u: "unit_result YTM ?objs 0 None None ''USD'' = 0
           \<and> metric_print YTM ?objs 0 None None ''USD'' = []"
    using t [of "''USD''", THEN conjunct2, THEN conjunct2, THEN conjunct1] g by simp
  have x: "unit_result YTM ?objs 0 None None ''X'' = 0
           \<and> metric_print YTM ?objs 0 None None ''X'' = []"
    using t [of "''X''" stock_X, THEN conjunct2, THEN conjunct2, THEN conjunct2, THEN conjunct1] g
    by (simp add: sv)
  have n: "unit_result YTM ?objs 0 None None ''N'' = 0"
    using t [of "''N''" nan_bond "\<lambda>d yc mp. NaN",
        THEN conjunct2, THEN conjunct2, THEN conjunct2, THEN conjunct2, THEN conjunct1] g
    by (simp add: sv)
  have v: "unit_value ''USD'' ?objs 0 ''N'' = Inr 0"
    using t [of "''N''" nan_bond, THEN conjunct2, THEN conjunct2, THEN conjunct2, THEN conjunct2,
        THEN conjunct2] g
    by (simp add: sv)
  have a5: "unit_result YTM ?objs 0 None None ''A'' = 0.05"
    by (simp add: unit_result_def g sv)
  have "\<exists>r. ytm mixed_portfolio 0 None no_kwargs =
          Inr ((Finite r, [(''USD'', 0), (''X'', 0), (''N'', 0), (''A'', 0.05)]), mixed_portfolio)"
    using r by (simp add: ytm_def u x n a5)
  then show ?thesis using pv mp vp u x n v by simp
qed

theorem unresolved_name_aborts_query:
  "ytm orphan_portfolio 0 None no_kwargs = Inl AttributeError
   \<and> portfolio_value orphan_portfolio 0 None = Inl AttributeError
   \<and> ytm seeded_portfolio 0 None no_kwargs = Inr ((Finite 0, [(''X'', 0)]), seeded_portfolio)
   \<and> metric_printed YTM seeded_portfolio 0 None no_kwargs = Inr []"
  by (simp add: ytm_def metric_printed_def metric_query_def portfolio_value_def carry_to_def
      orphan_portfolio_def seeded_portfolio_def objs_or_own_def unit_value_def unit_result_def
      value_print_def metric_print_def get_security_def stock_X_def quotient_def)

subsection \<open>Carrying forward from the nearest earlier snapshot\<close>

lemma carry_to_unfold:
  assumes "map_of (positions p) d = None"
      and "prev \<in> set (map fst (positions p))" and "prev < d"
      and "\<forall>k\<in>set (map fst (positions p)). k < d \<longrightarrow> k \<le> prev"
      and "map_of (positions p) prev = Some snap"
  shows "carry_to p d so = carry_loop p prev d (objs_or_own p so) snap"
proof -
  have "find_lt d (sort (map fst (positions p))) = Inr prev"
    using assms(2,3,4) by (rule find_lt_nearest)
  then show ?thesis using assms(1,5) by (simp add: carry_to_def)
qed

lemma held_names_Some:
  "map_of (positions p) d = Some snap \<Longrightarrow> held_names p d = set (map fst snap)"
  by (simp add: held_names_def)

lemma held_names_nonempty:
  "n \<in> held_names p d \<Longrightarrow> \<exists>snap. map_of (positions p) d = Some snap \<and> n \<in> set (map fst snap)"
  by (cases "map_of (positions p) d") (auto simp: held_names_def)

lemma carry_loop_materializes:
  assumes "carry_loop p prev d objs snap = Inr p'" and "snap \<noteq> []"
  shows "\<exists>snap'. map_of (positions p') d = Some snap' \<and> currency p \<in> set (map fst snap')"
proof -
  have "currency p \<in> held_names p' d"
    using carry_loop_held_names[OF assms(1)] assms(2) by simp
  then show ?thesis by (rule held_names_nonempty)
qed




subsection \<open>Queries write to the ledger\<close>




subsection \<open>Expired instruments\<close>

lemma sum_list_select_key:
  "distinct (map fst al) \<Longrightarrow>
     (\<Sum>(m, q)\<leftarrow>al. if m = n \<and> P m then q else 0)
       = (if n \<in> set (map fst al) \<and> P n then dict_get al n else (0::real))"
proof (induction al)
  case Nil
  then show ?case by simp
next
  case (Cons a al)
  obtain m q where a: "a = (m, q)" by (cases a)
  show ?case
  proof (cases "m = n")
    case True
    then have "n \<notin> set (map fst al)" using Cons.prems a by auto
    then have "(\<Sum>(m, q)\<leftarrow>al. if m = n \<and> P m then q else 0) = 0"
      using Cons.IH Cons.prems by simp
    then show ?thesis using True a by (simp add: dict_get_def)
  next
    case False
    then show ?thesis using Cons.IH Cons.prems a by (simp add: dict_get_def)
  qed
qed

lemma held_qty_Some:
  "map_of (positions p) d = Some snap \<Longrightarrow> held_qty p d n = dict_get snap n"
  by (simp add: held_qty_def)

lemma held_qty_None:
  "map_of (positions p) d = None \<Longrightarrow> held_qty p d n = 0"
  by (simp add: held_qty_def)

lemma held_names_None:
  "map_of (positions p) d = None \<Longrightarrow> held_names p d = {}"
  by (simp add: held_names_def)

text \<open>
  Claim C8. Carrying forward from the nearest earlier snapshot (a dictionary whose
  names all resolve) to a date \<open>d2\<close> at which the instrument of a held name \<open>n\<close>, not
  the currency, is expired: \<open>carry_to\<close> returns, \<open>n\<close> is absent from the snapshot of
  \<open>d2\<close>, and the currency balance at \<open>d2\<close> is the sum of the \<open>cash_to_date\<close> of the
  held names plus the earlier balance if the currency entry is carried; nothing in it
  depends on the quantity or the value of the expired instrument.
\<close>

theorem expired_instrument_dropped:
  assumes "map_of (positions p) d2 = None"
      and "d1 \<in> set (map fst (positions p))" and "d1 < d2"
      and "\<forall>k\<in>set (map fst (positions p)). k < d2 \<longrightarrow> k \<le> d1"
      and "map_of (positions p) d1 = Some snap" and "distinct (map fst snap)"
      and "\<forall>m\<in>set (map fst snap). get_security m (objs_or_own p so) \<noteq> None"
      and "n \<in> set (map fst snap)" and "n \<noteq> currency p"
      and "expired (objs_or_own p so) d2 n"
  shows "\<exists>p' snap'. carry_to p d2 so = Inr p'
           \<and> map_of (positions p') d2 = Some snap'
           \<and> map_of snap' n = None
           \<and> dict_get snap' (currency p) =
               (\<Sum>(m, q)\<leftarrow>snap. accrual (objs_or_own p so) d1 d2 m)
               + (if currency p \<in> set (map fst snap) \<and> \<not> expired (objs_or_own p so) d2 (currency p)
                  then dict_get snap (currency p) else 0)"
proof -
  let ?objs = "objs_or_own p so"
  obtain p' where loop: "carry_loop p d1 d2 ?objs snap = Inr p'"
    using carry_loop_returns[OF assms(7)] by blast
  have c: "carry_to p d2 so = Inr p'"
    using carry_to_unfold[OF assms(1-5)] loop by simp
  have ne: "snap \<noteq> []" using assms(8) by auto
  obtain snap' where s': "map_of (positions p') d2 = Some snap'"
    using carry_loop_materializes[OF loop ne] by blast
  have "held_names p' d2 = {currency p} \<union> {m \<in> set (map fst snap). \<not> expired ?objs d2 m}"
    using carry_loop_held_names[OF loop] ne by (simp add: held_names_None[OF assms(1)])
  then have "n \<notin> held_names p' d2" using assms(9,10) by simp
  then have absent: "map_of snap' n = None"
    by (simp add: held_names_Some[OF s'] map_of_eq_None_iff)
  have "held_qty p' d2 (currency p) =
          (\<Sum>(m, q)\<leftarrow>snap. accrual ?objs d1 d2 m)
          + (\<Sum>(m, q)\<leftarrow>snap. if m = currency p \<and> \<not> expired ?objs d2 m then q else 0)"
    using carry_loop_held_qty[OF loop, of "currency p"] by (simp add: held_qty_None[OF assms(1)])
  then have bal: "dict_get snap' (currency p) =
          (\<Sum>(m, q)\<leftarrow>snap. accrual ?objs d1 d2 m)
          + (if currency p \<in> set (map fst snap) \<and> \<not> expired ?objs d2 (currency p)
             then dict_get snap (currency p) else 0)"
    unfolding held_qty_Some[OF s']
      sum_list_select_key[OF assms(6), of "currency p" "\<lambda>m. \<not> expired ?objs d2 m"] .
  from c s' absent bal show ?thesis by blast
qed

theorem expired_instrument_dropped_witness:
  "\<exists>p' snap'. carry_to expiring_portfolio 7 None = Inr p'
      \<and> map_of (positions p') 7 = Some snap'
      \<and> map_of snap' ''M'' = None
      \<and> dict_get snap' ''USD'' = 2"
proof -
  let ?snap = "[(''M'', 3 :: real), (''X'', 10)]"
  let ?objs = "[note_M, stock_X]"
  have o: "objs_or_own expiring_portfolio None = ?objs"
    by (simp add: objs_or_own_def expiring_portfolio_def)
  have c: "currency expiring_portfolio = ''USD''" by (simp add: expiring_portfolio_def)
  have g: "get_security ''M'' ?objs = Some note_M" "get_security ''X'' ?objs = Some stock_X"
    by (simp_all add: get_security_def note_M_def stock_X_def)
  have f: "is_expired note_M 7" "cash_to_date note_M 0 7 = 2" "cash_to_date stock_X 0 7 = 0"
    by (simp_all add: note_M_def stock_X_def)
  have 1: "map_of (positions expiring_portfolio) 7 = None"
    by (simp add: expiring_portfolio_def)
  have 2: "0 \<in> set (map fst (positions expiring_portfolio))"
    by (simp add: expiring_portfolio_def)
  have 3: "(0::int) < 7" by simp
  have 4: "\<forall>k\<in>set (map fst (positions expiring_portfolio)). k < 7 \<longrightarrow> k \<le> 0"
    by (simp add: expiring_portfolio_def)
  have 5: "map_of (positions expiring_portfolio) 0 = Some ?snap"
    by (simp add: expiring_portfolio_def)
  have 6: "distinct (map fst ?snap)" by simp
  have 7: "\<forall>m\<in>set (map fst ?snap). get_security m (objs_or_own expiring_portfolio None) \<noteq> None"
    by (simp add: o g)
  have 8: "''M'' \<in> set (map fst ?snap)" by simp
  have 9: "''M'' \<noteq> currency expiring_portfolio" by (simp add: c)
  have 10: "expired (objs_or_own expiring_portfolio None) 7 ''M''"
    by (simp add: o expired_def g f)
  have acc: "accrual ?objs 0 7 ''M'' = 2" "accrual ?objs 0 7 ''X'' = 0"
    by (simp_all add: accrual_def g f)
  from expired_instrument_dropped [OF 1 2 3 4 5 6 7 8 9 10]
  show ?thesis by (simp add: o c acc)
qed

subsection \<open>Carrying without trades or expiries\<close>

lemma sum_list_alist_sum:
  "distinct (map fst al) \<Longrightarrow>
     (\<Sum>(n, q)\<leftarrow>al. g n * q) = (\<Sum>n\<in>set (map fst al). g n * dict_get al n :: real)"
proof (induction al)
  case Nil
  then show ?case by simp
next
  case (Cons a al)
  obtain m q where a: "a = (m, q)" by (cases a)
  have notin: "m \<notin> set (map fst al)" and d: "distinct (map fst al)"
    using Cons.prems a by auto
  have same: "(\<Sum>n\<in>set (map fst al). g n * dict_get (a # al) n)
              = (\<Sum>n\<in>set (map fst al). g n * dict_get al n)"
    by (rule sum.cong) (use notin a in \<open>auto simp: dict_get_def\<close>)
  have "(\<Sum>n\<in>set (map fst (a # al)). g n * dict_get (a # al) n)
        = g m * dict_get (a # al) m + (\<Sum>n\<in>set (map fst al). g n * dict_get (a # al) n)"
    using notin a by simp
  also have "\<dots> = g m * q + (\<Sum>n\<in>set (map fst al). g n * dict_get al n)"
    using same a by (simp add: dict_get_def)
  finally show ?case using Cons.IH[OF d] a by simp
qed

lemma value_loop_total:
  assumes "value_loop cur objs d snap = Inr vd" and "distinct (map fst snap)"
  shows "sum_list (map snd vd) =
           (\<Sum>n\<in>set (map fst snap).
              (case unit_value cur objs d n of Inl e \<Rightarrow> 0 | Inr u \<Rightarrow> u) * dict_get snap n)"
proof -
  let ?u = "\<lambda>n. case unit_value cur objs d n of Inl e \<Rightarrow> 0 | Inr u \<Rightarrow> u"
  have "vd = map (\<lambda>(n, q). (n, ?u n * q)) snap"
    using assms(1) by (rule value_loop_entries)
  then have "sum_list (map snd vd) = (\<Sum>(n, q)\<leftarrow>snap. ?u n * q)"
    by (simp add: case_prod_unfold comp_def)
  then show ?thesis using sum_list_alist_sum[OF assms(2), of ?u] by simp
qed

lemma dict_get_notin: "n \<notin> set (map fst al) \<Longrightarrow> dict_get al n = 0"
  by (simp add: dict_get_def map_of_eq_None_iff[THEN iffD2])

lemma map_of_dict_get: "n \<in> set (map fst al) \<Longrightarrow> map_of al n = Some (dict_get al n)"
  by (cases "map_of al n") (auto simp: dict_get_def map_of_eq_None_iff)

lemma add_position_distinct:
  assumes "\<forall>s. map_of (positions p) d = Some s \<longrightarrow> distinct (map fst s)"
      and "map_of (positions (add_position p d' n q)) d = Some s'"
  shows "distinct (map fst s')"
proof (cases "d' = d")
  case True
  then show ?thesis
    using assms by (auto simp: add_position_this_date distinct_update split: option.splits)
next
  case False
  then show ?thesis using assms by (simp add: add_position_other_date)
qed

lemma carry_loop_distinct:
  "carry_loop p prev d objs items = Inr p' \<Longrightarrow>
   \<forall>s. map_of (positions p) d = Some s \<longrightarrow> distinct (map fst s) \<Longrightarrow>
   map_of (positions p') d = Some s' \<Longrightarrow> distinct (map fst s')"
proof (induction items arbitrary: p)
  case Nil
  then show ?case by simp
next
  case (Cons a items)
  obtain m q where a: "a = (m, q)" by (cases a)
  from Cons.prems a obtain s where s: "get_security m objs = Some s"
    by (auto split: option.splits)
  define p1 where "p1 = add_position p d (currency p) (cash_to_date s prev d)"
  define p2 where "p2 = (if \<not> is_expired s d then add_position p1 d m q else p1)"
  have run: "carry_loop p2 prev d objs items = Inr p'"
    using Cons.prems a s by (simp add: p1_def p2_def Let_def split: if_splits)
  have d1: "\<forall>s. map_of (positions p1) d = Some s \<longrightarrow> distinct (map fst s)"
    unfolding p1_def using add_position_distinct[OF Cons.prems(2)] by blast
  have d2: "\<forall>s. map_of (positions p2) d = Some s \<longrightarrow> distinct (map fst s)"
    unfolding p2_def using d1 add_position_distinct[OF d1] by (cases "is_expired s d") auto
  show ?case using Cons.IH[OF run d2 Cons.prems(3)] .
qed

text \<open>
  Claim C3, as the source has it. Carrying forward from the nearest earlier snapshot
  at \<open>d1\<close> (a non-empty dictionary whose names, the currency entry included, all
  resolve to instruments) to a date \<open>d2\<close> at which none of them is expired:
  \<open>carry_to\<close> returns, every name other than the currency holds at \<open>d2\<close> the quantity
  it held at \<open>d1\<close>, the currency balance at \<open>d2\<close> is the balance at \<open>d1\<close> plus the sum
  of the \<open>cash_to_date\<close> of the held names, and \<open>value\<close> returns at both dates; if
  moreover each held name has at \<open>d2\<close> the unit value it has at \<open>d1\<close>, then
  \<open>value(d2) = value(d1) + \<Sum> cash_to_date(d1, d2)\<close>.
\<close>

theorem carry_without_expiry:
  assumes "map_of (positions p) d2 = None"
      and "d1 \<in> set (map fst (positions p))" and "d1 < d2"
      and "\<forall>k\<in>set (map fst (positions p)). k < d2 \<longrightarrow> k \<le> d1"
      and "map_of (positions p) d1 = Some snap" and "distinct (map fst snap)" and "snap \<noteq> []"
      and "\<forall>n\<in>set (map fst snap). get_security n (objs_or_own p so) \<noteq> None"
      and "\<forall>n\<in>set (map fst snap). \<not> expired (objs_or_own p so) d2 n"
  shows "\<exists>p' snap' v1 vd1 v2 vd2.
           carry_to p d2 so = Inr p'
           \<and> map_of (positions p') d2 = Some snap'
           \<and> (\<forall>n. n \<noteq> currency p \<longrightarrow> map_of snap' n = map_of snap n)
           \<and> dict_get snap' (currency p) =
               dict_get snap (currency p) + (\<Sum>(n, q)\<leftarrow>snap. accrual (objs_or_own p so) d1 d2 n)
           \<and> portfolio_value p d1 so = Inr ((v1, vd1), p)
           \<and> portfolio_value p d2 so = Inr ((v2, vd2), p')
           \<and> ((\<forall>n\<in>set (map fst snap).
                  unit_value (currency p) (objs_or_own p so) d2 n
                    = unit_value (currency p) (objs_or_own p so) d1 n)
                \<longrightarrow> v2 = v1 + (\<Sum>(n, q)\<leftarrow>snap. accrual (objs_or_own p so) d1 d2 n))"
proof -
  let ?objs = "objs_or_own p so"
  let ?cur = "currency p"
  let ?K = "set (map fst snap)"
  define A where "A = (\<Sum>(n, q)\<leftarrow>snap. accrual ?objs d1 d2 n)"
  obtain p' where loop: "carry_loop p d1 d2 ?objs snap = Inr p'"
    using carry_loop_returns[OF assms(8)] by blast
  have c: "carry_to p d2 so' = Inr p'" if "objs_or_own p so' = ?objs" for so'
    using carry_to_unfold[OF assms(1-5), of so'] loop that by simp
  have c1: "carry_to p d2 so = Inr p'" by (rule c) simp
  have c2: "carry_to p d2 (Some ?objs) = Inr p'" by (rule c) simp
  obtain snap' where s': "map_of (positions p') d2 = Some snap'"
    using carry_loop_materializes[OF loop assms(7)] by blast
  have cur: "currency p' = ?cur" using carry_loop_fields[OF loop] by simp
  have K': "set (map fst snap') = insert ?cur ?K"
    using carry_loop_held_names[OF loop] assms(7,9)
    by (auto simp: held_names_None[OF assms(1)] held_names_Some[OF s'])
  have dist': "distinct (map fst snap')"
    using carry_loop_distinct[OF loop _ s'] assms(1) by simp
  have qty: "dict_get snap' n = (if n = ?cur then A else 0) + dict_get snap n" for n
  proof -
    have "(\<Sum>(m, q)\<leftarrow>snap. if m = n \<and> \<not> expired ?objs d2 m then q else 0)
          = (if n \<in> ?K \<and> \<not> expired ?objs d2 n then dict_get snap n else 0)"
      using assms(6) by (rule sum_list_select_key)
    also have "\<dots> = dict_get snap n"
    proof (cases "n \<in> ?K")
      case True
      then have "\<not> expired ?objs d2 n" using assms(9) by blast
      then show ?thesis using True by simp
    next
      case False
      then show ?thesis by (simp add: dict_get_notin)
    qed
    finally show ?thesis
      using carry_loop_held_qty[OF loop, of n]
      by (simp add: held_qty_None[OF assms(1)] held_qty_Some[OF s'] A_def)
  qed
  have carried: "\<forall>n. n \<noteq> ?cur \<longrightarrow> map_of snap' n = map_of snap n"
  proof (intro allI impI)
    fix n assume n: "n \<noteq> ?cur"
    show "map_of snap' n = map_of snap n"
    proof (cases "n \<in> ?K")
      case True
      then have "n \<in> set (map fst snap')" using K' by simp
      then show ?thesis
        using True n by (simp add: map_of_dict_get qty)
    next
      case False
      then have "n \<notin> set (map fst snap')" using K' n by simp
      then show ?thesis using False by (simp add: map_of_eq_None_iff[THEN iffD2])
    qed
  qed
  have bal: "dict_get snap' ?cur = dict_get snap ?cur + A" by (simp add: qty)
  have r1: "\<forall>n\<in>?K. n \<noteq> ?cur \<longrightarrow> get_security n ?objs \<noteq> None"
    using assms(8) by blast
  obtain vd1 where vd1: "value_loop ?cur ?objs d1 snap = Inr vd1"
    using value_loop_returns[OF r1] by blast
  have r2: "\<forall>n\<in>set (map fst snap'). n \<noteq> currency p' \<longrightarrow> get_security n ?objs \<noteq> None"
    unfolding K' cur using assms(8) by blast
  obtain vd2 where vd2: "value_loop (currency p') ?objs d2 snap' = Inr vd2"
    using value_loop_returns[OF r2] by blast
  have pv1: "portfolio_value p d1 so = Inr ((sum_list (map snd vd1), vd1), p)"
    using assms(5) vd1 by (simp add: portfolio_value_materialized)
  have pv2: "portfolio_value p d2 so = Inr ((sum_list (map snd vd2), vd2), p')"
    using c2 s' vd2 by (simp add: portfolio_value_def)
  have eq: "sum_list (map snd vd2) = sum_list (map snd vd1) + A"
    if same: "\<forall>n\<in>?K. unit_value ?cur ?objs d2 n = unit_value ?cur ?objs d1 n"
  proof -
    let ?u1 = "\<lambda>n. case unit_value ?cur ?objs d1 n of Inl e \<Rightarrow> 0 | Inr u \<Rightarrow> u"
    let ?u2 = "\<lambda>n. case unit_value ?cur ?objs d2 n of Inl e \<Rightarrow> 0 | Inr u \<Rightarrow> u"
    have u2cur: "?u2 ?cur = 1" by (simp add: unit_value_def)
    have t1: "sum_list (map snd vd1) = (\<Sum>n\<in>?K. ?u1 n * dict_get snap n)"
      using vd1 assms(6) by (rule value_loop_total)
    have "sum_list (map snd vd2) = (\<Sum>n\<in>insert ?cur ?K. ?u2 n * dict_get snap' n)"
      using value_loop_total[OF vd2 dist'] unfolding K' cur .
    also have "\<dots> = (\<Sum>n\<in>insert ?cur ?K. (if n = ?cur then A else 0) + ?u2 n * dict_get snap n)"
      by (rule sum.cong) (auto simp: qty u2cur distrib_left)
    also have "\<dots> = (\<Sum>n\<in>insert ?cur ?K. if n = ?cur then A else 0)
                    + (\<Sum>n\<in>insert ?cur ?K. ?u2 n * dict_get snap n)"
      by (rule sum.distrib)
    also have "(\<Sum>n\<in>insert ?cur ?K. if n = ?cur then A else 0) = A"
      by simp
    also have "(\<Sum>n\<in>insert ?cur ?K. ?u2 n * dict_get snap n) = (\<Sum>n\<in>?K. ?u2 n * dict_get snap n)"
      by (cases "?cur \<in> ?K") (simp_all add: insert_absorb dict_get_notin)
    also have "\<dots> = (\<Sum>n\<in>?K. ?u1 n * dict_get snap n)"
      by (rule sum.cong) (use same in auto)
    finally show ?thesis using t1 by simp
  qed
  show ?thesis
    using c1 s' carried bal pv1 pv2 eq unfolding A_def by blast
qed

theorem carry_without_expiry_witness:
  "\<exists>p' v1 vd1 v2 vd2.
      carry_to coupon_portfolio 4 None = Inr p'
      \<and> map_of (positions p') 4 \<noteq> None
      \<and> portfolio_value coupon_portfolio 0 None = Inr ((v1, vd1), coupon_portfolio)
      \<and> portfolio_value coupon_portfolio 4 None = Inr ((v2, vd2), p')
      \<and> v2 = v1 + 3"
proof -
  let ?snap = "[(''USD'', 40 :: real), (''C'', 2)]"
  let ?objs = "[cash_USD, coupon_bond]"
  have o: "objs_or_own coupon_portfolio None = ?objs"
    by (simp add: objs_or_own_def coupon_portfolio_def)
  have c: "currency coupon_portfolio = ''USD''" by (simp add: coupon_portfolio_def)
  have g: "get_security ''USD'' ?objs = Some cash_USD" "get_security ''C'' ?objs = Some coupon_bond"
    by (simp_all add: get_security_def cash_USD_def coupon_bond_def)
  have f: "\<not> is_expired cash_USD 4" "\<not> is_expired coupon_bond 4"
    "cash_to_date cash_USD 0 4 = 0" "cash_to_date coupon_bond 0 4 = 3"
    "sec_value coupon_bond 4 = sec_value coupon_bond 0"
    by (simp_all add: cash_USD_def coupon_bond_def)
  have 1: "map_of (positions coupon_portfolio) 4 = None"
    by (simp add: coupon_portfolio_def)
  have 2: "0 \<in> set (map fst (positions coupon_portfolio))"
    by (simp add: coupon_portfolio_def)
  have 3: "(0::int) < 4" by simp
  have 4: "\<forall>k\<in>set (map fst (positions coupon_portfolio)). k < 4 \<longrightarrow> k \<le> 0"
    by (simp add: coupon_portfolio_def)
  have 5: "map_of (positions coupon_portfolio) 0 = Some ?snap"
    by (simp add: coupon_portfolio_def)
  have 6: "distinct (map fst ?snap)" by simp
  have 7: "?snap \<noteq> []" by simp
  have 8: "\<forall>n\<in>set (map fst ?snap). get_security n (objs_or_own coupon_portfolio None) \<noteq> None"
    by (simp add: o g)
  have 9: "\<forall>n\<in>set (map fst ?snap). \<not> expired (objs_or_own coupon_portfolio None) 4 n"
    by (simp add: o expired_def g f)
  have acc: "(\<Sum>(n, q)\<leftarrow>?snap. accrual ?objs 0 4 n) = 3"
    by (simp add: accrual_def g f)
  have same: "\<forall>n\<in>set (map fst ?snap).
      unit_value ''USD'' ?objs 4 n = unit_value ''USD'' ?objs 0 n"
    by (simp add: unit_value_def g f)
  from carry_without_expiry [OF 1 2 3 4 5 6 7 8 9, unfolded o c acc]
  obtain p' snap' v1 vd1 v2 vd2 where
    a: "carry_to coupon_portfolio 4 None = Inr p'"
    and b: "map_of (positions p') 4 = Some snap'"
    and v1: "portfolio_value coupon_portfolio 0 None = Inr ((v1, vd1), coupon_portfolio)"
    and v2: "portfolio_value coupon_portfolio 4 None = Inr ((v2, vd2), p')"
    and imp: "(\<forall>n\<in>set (map fst ?snap).
                unit_value ''USD'' ?objs 4 n = unit_value ''USD'' ?objs 0 n) \<longrightarrow> v2 = v1 + 3"
    by (elim exE conjE) (rule that)
  from imp same have "v2 = v1 + 3" by blast
  with a b v1 v2 show ?thesis by blast
qed

theorem value_moves_with_unit_values:
  "portfolio_value rising_portfolio 0 None = Inr ((100, [(''R'', 100)]), rising_portfolio)
   \<and> portfolio_value rising_portfolio 5 None
       = Inr ((110, [(''USD'', 0), (''R'', 110)]),
              rising_portfolio\<lparr>positions := [(0, [(''R'', 1)]), (5, [(''USD'', 0), (''R'', 1)])]\<rparr>)
   \<and> accrual (security_objects rising_portfolio) 0 5 ''R'' = 0
   \<and> \<not> expired (security_objects rising_portfolio) 5 ''R''
   \<and> (110 :: real) \<noteq> 100 + 0"
  by (simp add: portfolio_value_def carry_to_def find_lt_def bisect_left_def
      rising_portfolio_def objs_or_own_def add_position_def dict_get_def unit_value_def
      get_security_def accrual_def expired_def stock_R_def)

subsection \<open>The first trade\<close>

lemma add_trade_empty_ledger:
  assumes "positions p = []" and "map_of (trades p) d = None"
  shows "add_trade p d n t so = Inl ValueError"
  using assms
  by (simp add: add_trade_def apply_trade_def carry_to_def find_lt_def bisect_left_def)

lemma first_trade_on_balance:
  assumes "map_of (positions p) d = Some [(currency p, b)]"
      and "map_of (trades p) d = None"
      and "n \<noteq> currency p"
      and "get_security n (objs_or_own p so) = Some s"
      and "sec_value s d = Py 50 \<or> sec_value s d = Np 50"
  shows "\<exists>p'. add_trade p d n \<lparr>qty = 10, price = 50\<rparr> so = Inr p'
           \<and> portfolio_value p' d so
               = Inr ((b, [(currency p, b - 500), (n, 500)]), p')"
proof -
  define p1 where "p1 = p\<lparr>trades := AList.update d [(n, \<lparr>qty = 10, price = 50\<rparr>)] (trades p)\<rparr>"
  define p' where
    "p' = p1\<lparr>positions := AList.update d [(currency p, b - 500), (n, 10)] (positions p1)\<rparr>"
  have at: "add_trade p d n \<lparr>qty = 10, price = 50\<rparr> so = Inr p'"
    using assms(1,2,3)
    by (simp add: add_trade_def apply_trade_def p1_def p'_def dict_get_def Let_def)
  have s3: "map_of (positions p') d = Some [(currency p, b - 500), (n, 10)]"
    by (simp add: p'_def update_conv')
  have cur: "currency p' = currency p" by (simp add: p'_def p1_def)
  have objs: "objs_or_own p' so = objs_or_own p so"
    by (cases so) (simp_all add: objs_or_own_def p'_def p1_def)
  have vl: "value_loop (currency p) (objs_or_own p so) d [(currency p, b - 500), (n, 10)]
              = Inr [(currency p, b - 500), (n, 500)]"
    using assms(3,4,5) by (auto simp add: unit_value_def)
  have "portfolio_value p' d so = Inr ((b, [(currency p, b - 500), (n, 500)]), p')"
    using vl by (simp add: portfolio_value_materialized[OF s3] cur objs)
  with at show ?thesis by blast
qed

text \<open>
  Claim C4, as the source has it. On an empty ledger (no position entry, no trade at
  \<open>d\<close>) \<open>add_trade\<close> raises the \<open>ValueError\<close> of \<open>find_lt\<close>, whatever the trade. On a
  portfolio whose ledger holds at \<open>d\<close> only a balance \<open>b\<close> of the base currency, with
  no trade recorded at \<open>d\<close>, and whose instrument \<open>n\<close> has unit value 50 at \<open>d\<close>:
  \<open>add_trade(d, n, trade(10, 50))\<close> returns, and then \<open>value(d)\<close> returns the total
  \<open>b\<close> with the breakdown currency: \<open>b - 500\<close> and \<open>n\<close>: 500.
\<close>

theorem first_trade_value:
  "(positions p0 = [] \<and> map_of (trades p0) d = None
      \<longrightarrow> add_trade p0 d n t so = Inl ValueError)
   \<and> (map_of (positions p) d = Some [(currency p, b)] \<and> map_of (trades p) d = None
        \<and> n \<noteq> currency p \<and> get_security n (objs_or_own p so) = Some s
        \<and> (sec_value s d = Py 50 \<or> sec_value s d = Np 50)
      \<longrightarrow> (\<exists>p'. add_trade p d n \<lparr>qty = 10, price = 50\<rparr> so = Inr p'
             \<and> portfolio_value p' d so
                 = Inr ((b, [(currency p, b - 500), (n, 500)]), p')))"
  using add_trade_empty_ledger first_trade_on_balance by blast

theorem first_trade_value_witness:
  "add_trade (Portfolio ''EUR'' None) 9 ''X'' \<lparr>qty = 3, price = 7\<rparr> (Some [stock_X])
     = Inl ValueError
   \<and> (\<exists>p'. add_trade (add_position (Portfolio ''USD'' (Some [stock_X])) 3 ''USD'' 0) 3 ''X''
            \<lparr>qty = 10, price = 50\<rparr> None = Inr p'
      \<and> portfolio_value p' 3 None = Inr ((0, [(''USD'', - 500), (''X'', 500)]), p'))"
proof
  have e: "positions (Portfolio ''EUR'' None) = [] \<and> map_of (trades (Portfolio ''EUR'' None)) 9 = None"
    by (simp add: Portfolio_def)
  from first_trade_value [THEN conjunct1, THEN mp, OF e]
  show "add_trade (Portfolio ''EUR'' None) 9 ''X'' \<lparr>qty = 3, price = 7\<rparr> (Some [stock_X])
     = Inl ValueError" .
next
  let ?p = "add_position (Portfolio ''USD'' (Some [stock_X])) 3 ''USD'' 0"
  have c0: "currency (Portfolio ''USD'' (Some [stock_X])) = ''USD''" by (simp add: Portfolio_def)
  have h: "map_of (positions ?p) 3 = Some [(currency ?p, 0)] \<and> map_of (trades ?p) 3 = None
        \<and> ''X'' \<noteq> currency ?p \<and> get_security ''X'' (objs_or_own ?p None) = Some stock_X
        \<and> (sec_value stock_X 3 = Py 50 \<or> sec_value stock_X 3 = Np 50)"
    by (simp add: add_position_this_date Portfolio_def objs_or_own_def get_security_def
        stock_X_def)
  from first_trade_value [THEN conjunct2, THEN mp, OF h]
  show "\<exists>p'. add_trade ?p 3 ''X'' \<lparr>qty = 10, price = 50\<rparr> None = Inr p'
      \<and> portfolio_value p' 3 None = Inr ((0, [(''USD'', - 500), (''X'', 500)]), p')"
    by (simp add: c0)
qed

theorem first_trade_on_empty_ledger_raises:
  "add_trade (Portfolio ''USD'' (Some [stock_X])) 3 ''X'' \<lparr>qty = 10, price = 50\<rparr> None
     = Inl ValueError"
  by (simp add: add_trade_def Portfolio_def apply_trade_def carry_to_def find_lt_def
      bisect_left_def)

subsection \<open>Entries of quantity 0\<close>

lemma set_update_subset: "set (AList.update k v al) \<subseteq> insert (k, v) (set al)"
  by (induction al) auto

lemma no_zero_qty_iff:
  "no_zero_qty p \<longleftrightarrow>
     (\<forall>d snap. (d, snap) \<in> set (positions p) \<longrightarrow>
        (\<forall>n q. (n, q) \<in> set snap \<longrightarrow> q \<noteq> 0 \<or> n = currency p))"
  by (auto simp: no_zero_qty_def list_all_iff)

lemma no_zero_qty_snap_ok:
  "no_zero_qty p \<longleftrightarrow> (\<forall>d snap. (d, snap) \<in> set (positions p) \<longrightarrow> snap_ok (currency p) snap)"
  by (simp add: no_zero_qty_iff snap_ok_def)

lemma snap_ok_update:
  "snap_ok cur snap \<Longrightarrow> v \<noteq> 0 \<or> n = cur \<Longrightarrow> snap_ok cur (AList.update n v snap)"
  using set_update_subset[of n v snap] by (auto simp: snap_ok_def)

lemma snap_ok_delete: "snap_ok cur snap \<Longrightarrow> snap_ok cur (AList.delete n snap)"
  by (auto simp: snap_ok_def AList.delete_eq)

lemma no_zero_qty_store:
  assumes "no_zero_qty p" and "snap_ok (currency p) snap'"
  shows "no_zero_qty (p\<lparr>positions := AList.update d snap' (positions p)\<rparr>)"
  using assms set_update_subset[of d snap' "positions p"]
  by (auto simp: no_zero_qty_snap_ok)

lemma no_zero_qty_lookup:
  "no_zero_qty p \<Longrightarrow> map_of (positions p) d = Some snap \<Longrightarrow> snap_ok (currency p) snap"
  by (auto simp: no_zero_qty_snap_ok dest: map_of_SomeD)

lemma add_position_no_zero:
  assumes "no_zero_qty p" and "n = currency p \<or> held_qty p d n + q \<noteq> 0"
  shows "no_zero_qty (add_position p d n q)"
proof (cases "map_of (positions p) d")
  case None
  have "snap_ok (currency p) [(n, q)]"
    using assms(2) None by (auto simp: snap_ok_def held_qty_def)
  then show ?thesis
    using no_zero_qty_store[OF assms(1)] None by (simp add: add_position_def)
next
  case (Some snap)
  have "snap_ok (currency p) (AList.update n (dict_get snap n + q) snap)"
    using no_zero_qty_lookup[OF assms(1) Some] assms(2) Some
    by (intro snap_ok_update) (auto simp: held_qty_def)
  then show ?thesis
    using no_zero_qty_store[OF assms(1)] Some by (simp add: add_position_def)
qed

lemma remove_position_no_zero:
  assumes "no_zero_qty p" and "n = currency p \<or> held_qty p d n - q \<noteq> 0"
  shows "no_zero_qty (remove_position p d n (Some q))"
proof (cases "map_of (positions p) d")
  case None
  then show ?thesis using assms(1) by (simp add: remove_position_def)
next
  case (Some snap)
  have "snap_ok (currency p) (AList.update n (dict_get snap n - q) snap)"
    using no_zero_qty_lookup[OF assms(1) Some] assms(2) Some
    by (intro snap_ok_update) (auto simp: held_qty_def)
  then show ?thesis
    using no_zero_qty_store[OF assms(1)] Some by (simp add: remove_position_def)
qed

lemma carry_loop_no_zero:
  "carry_loop p prev d objs items = Inr p' \<Longrightarrow> no_zero_qty p \<Longrightarrow>
   distinct (map fst items) \<Longrightarrow> snap_ok (currency p) items \<Longrightarrow>
   \<forall>n\<in>set (map fst items). n = currency p \<or> n \<notin> held_names p d \<Longrightarrow>
   no_zero_qty p'"
proof (induction items arbitrary: p)
  case Nil
  then show ?case by simp
next
  case (Cons a items)
  obtain m q where a: "a = (m, q)" by (cases a)
  from Cons.prems a obtain s where s: "get_security m objs = Some s"
    by (auto split: option.splits)
  define p1 where "p1 = add_position p d (currency p) (cash_to_date s prev d)"
  define p2 where "p2 = (if \<not> is_expired s d then add_position p1 d m q else p1)"
  have run: "carry_loop p2 prev d objs items = Inr p'"
    using Cons.prems a s by (simp add: p1_def p2_def Let_def split: if_splits)
  have cur1: "currency p1 = currency p" by (simp add: p1_def)
  have cur2: "currency p2 = currency p" by (simp add: p1_def p2_def)
  have nz1: "no_zero_qty p1"
    unfolding p1_def using Cons.prems(2) by (rule add_position_no_zero) simp
  have names1: "held_names p1 d = insert (currency p) (held_names p d)"
    by (simp add: p1_def held_names_add_position)
  have mq: "q \<noteq> 0 \<or> m = currency p"
    using Cons.prems(4) a by (auto simp: snap_ok_def)
  have mfresh: "m = currency p \<or> m \<notin> held_names p d"
    using Cons.prems(5) a by simp
  have "m = currency p1 \<or> held_qty p1 d m + q \<noteq> 0"
  proof (cases "m = currency p")
    case True
    then show ?thesis by (simp add: cur1)
  next
    case False
    then have "m \<notin> held_names p1 d" using mfresh names1 by simp
    then have "held_qty p1 d m = 0"
      by (cases "map_of (positions p1) d")
         (auto simp: held_names_def held_qty_def dict_get_notin)
    then show ?thesis using mq False by simp
  qed
  then have "no_zero_qty (add_position p1 d m q)"
    using nz1 by (intro add_position_no_zero)
  then have nz2: "no_zero_qty p2" using nz1 by (simp add: p2_def)
  have names2: "held_names p2 d \<subseteq> insert m (insert (currency p) (held_names p d))"
    by (auto simp: p2_def names1 held_names_add_position)
  have d': "distinct (map fst items)" and mnot: "m \<notin> set (map fst items)"
    using Cons.prems(3) a by auto
  have ok': "snap_ok (currency p2) items"
    using Cons.prems(4) by (auto simp: snap_ok_def cur2)
  have fresh': "\<forall>n\<in>set (map fst items). n = currency p2 \<or> n \<notin> held_names p2 d"
  proof
    fix n assume n: "n \<in> set (map fst items)"
    then have "n \<noteq> m" using mnot by auto
    moreover have "n = currency p \<or> n \<notin> held_names p d" using Cons.prems(5) n by auto
    ultimately show "n = currency p2 \<or> n \<notin> held_names p2 d"
      using names2 cur2 by auto
  qed
  show ?case using Cons.IH[OF run nz2 d' ok' fresh'] .
qed

lemma dict_ok_lookup:
  "dict_ok p \<Longrightarrow> map_of (positions p) d = Some snap \<Longrightarrow> distinct (map fst snap)"
  by (auto simp: dict_ok_def list_all_iff dest: map_of_SomeD)

lemma carry_to_no_zero:
  assumes "carry_to p d so = Inr p'" and "no_zero_qty p" and "dict_ok p"
  shows "no_zero_qty p'"
proof (cases "map_of (positions p) d")
  case (Some snap)
  then show ?thesis using assms(1,2) by (simp add: carry_to_def)
next
  case None
  from assms(1) None obtain prev snap where
    snap: "map_of (positions p) prev = Some snap"
    and loop: "carry_loop p prev d (objs_or_own p so) snap = Inr p'"
    by (auto simp: carry_to_def split: sum.splits option.splits)
  have fresh: "\<forall>n\<in>set (map fst snap). n = currency p \<or> n \<notin> held_names p d"
    by (simp add: held_names_None[OF None])
  show ?thesis
    using loop assms(2) dict_ok_lookup[OF assms(3) snap] no_zero_qty_lookup[OF assms(2) snap] fresh
    by (rule carry_loop_no_zero)
qed

lemma snap_ok_trade_update:
  assumes "snap_ok cur snap"
  shows "snap_ok cur
           (let s1 = AList.update n v1 snap; s2 = AList.update cur v2 s1
            in if dict_get s2 n = 0 \<and> n \<noteq> cur then AList.delete n s2 else s2)"
proof (cases "n = cur")
  case True
  then show ?thesis using assms by (simp add: Let_def snap_ok_update)
next
  case False
  then have g: "dict_get (AList.update cur v2 (AList.update n v1 snap)) n = v1"
    by (simp add: dict_get_def update_conv')
  show ?thesis
  proof (cases "v1 = 0")
    case True
    have "snap_ok cur (AList.delete n (AList.update cur v2 (AList.update n v1 snap)))"
      using assms set_update_subset[of cur v2 "AList.update n v1 snap"]
        set_update_subset[of n v1 snap]
      by (auto simp: snap_ok_def AList.delete_eq)
    then show ?thesis using True False g by (simp add: Let_def)
  next
    case nz: False
    then show ?thesis using assms False g by (simp add: Let_def snap_ok_update)
  qed
qed

lemma apply_trade_no_zero:
  assumes "apply_trade p d n t so = Inr p'" and "no_zero_qty p" and "dict_ok p"
  shows "no_zero_qty p'"
proof -
  from assms(1) obtain p1 snap where
    c: "(if map_of (positions p) d = None then carry_to p d so else Inr p) = Inr p1"
    and snap: "map_of (positions p1) d = Some snap"
    and p': "p' = p1\<lparr>positions := AList.update d
        (let s1 = AList.update n (dict_get snap n + qty t) snap;
             s2 = AList.update (currency p1) (dict_get s1 (currency p1) - qty t * price t) s1
         in if dict_get s2 n = 0 \<and> n \<noteq> currency p1 then AList.delete n s2 else s2)
        (positions p1)\<rparr>"
    by (auto simp: apply_trade_def Let_def split: sum.splits option.splits)
  have nz1: "no_zero_qty p1"
    using c assms(2,3) carry_to_no_zero by (auto split: if_splits)
  have ok: "snap_ok (currency p1) snap" using nz1 snap by (rule no_zero_qty_lookup)
  show ?thesis
    unfolding p' Let_def
    using snap_ok_trade_update[OF ok, unfolded Let_def] by (intro no_zero_qty_store[OF nz1])
qed

lemma add_trade_no_zero:
  assumes "add_trade p d n t so = Inr p'" and "no_zero_qty p" and "dict_ok p"
  shows "no_zero_qty p'"
proof -
  from assms(1) obtain tr where a: "apply_trade (p\<lparr>trades := tr\<rparr>) d n t so = Inr p'"
    by (auto simp: add_trade_def split: sum.splits option.splits)
  have "no_zero_qty (p\<lparr>trades := tr\<rparr>)" using assms(2) by (simp add: no_zero_qty_def)
  moreover have "dict_ok (p\<lparr>trades := tr\<rparr>)" using assms(3) by (simp add: dict_ok_def)
  ultimately show ?thesis using a apply_trade_no_zero by blast
qed

text \<open>
  Claim C9, as the source has it. On a ledger of dictionaries in which no entry other
  than the currency's holds quantity 0: \<open>carry_to\<close> and \<open>add_trade\<close>, when they
  return, leave such a ledger, and so does \<open>remove_position\<close> without a quantity;
  \<open>add_position\<close> and \<open>remove_position\<close> with a quantity leave such a ledger when the
  name is the currency or the quantity they write, the held one plus or minus \<open>q\<close>, is
  not 0.
\<close>

theorem ledger_no_zero_entries:
  assumes "no_zero_qty p" and "dict_ok p"
  shows "(\<forall>p'. carry_to p d so = Inr p' \<longrightarrow> no_zero_qty p')
       \<and> (\<forall>p'. add_trade p d n t so = Inr p' \<longrightarrow> no_zero_qty p')
       \<and> no_zero_qty (remove_position p d n None)
       \<and> (n = currency p \<or> held_qty p d n + q \<noteq> 0 \<longrightarrow> no_zero_qty (add_position p d n q))
       \<and> (n = currency p \<or> held_qty p d n - q \<noteq> 0
            \<longrightarrow> no_zero_qty (remove_position p d n (Some q)))"
proof (intro conjI allI impI)
  fix p' assume "carry_to p d so = Inr p'"
  then show "no_zero_qty p'" using assms by (rule carry_to_no_zero)
next
  fix p' assume "add_trade p d n t so = Inr p'"
  then show "no_zero_qty p'" using assms by (rule add_trade_no_zero)
next
  show "no_zero_qty (remove_position p d n None)"
    using assms(1) by (simp add: remove_position_def split: option.splits)
next
  assume "n = currency p \<or> held_qty p d n + q \<noteq> 0"
  with assms(1) show "no_zero_qty (add_position p d n q)" by (rule add_position_no_zero)
next
  assume "n = currency p \<or> held_qty p d n - q \<noteq> 0"
  with assms(1) show "no_zero_qty (remove_position p d n (Some q))"
    by (rule remove_position_no_zero)
qed

theorem ledger_no_zero_entries_witness:
  "(\<exists>p'. add_trade seeded_portfolio 0 ''X'' \<lparr>qty = - 10, price = 60\<rparr> None = Inr p'
       \<and> map_of (positions p') 0 = Some [(''USD'', 600)] \<and> no_zero_qty p')
   \<and> (\<exists>p'. carry_to seeded_portfolio 3 None = Inr p'
       \<and> map_of (positions p') 3 = Some [(''USD'', 0), (''X'', 10)] \<and> no_zero_qty p')
   \<and> no_zero_qty (add_position seeded_portfolio 0 ''X'' 5)
   \<and> no_zero_qty (remove_position seeded_portfolio 0 ''X'' (Some 4))"
proof -
  have nz: "no_zero_qty seeded_portfolio"
    by (simp add: no_zero_qty_def seeded_portfolio_def)
  have dk: "dict_ok seeded_portfolio"
    by (simp add: dict_ok_def seeded_portfolio_def)
  have hq: "held_qty seeded_portfolio 0 ''X'' = 10"
    by (simp add: held_qty_def dict_get_def seeded_portfolio_def)
  have at: "add_trade seeded_portfolio 0 ''X'' \<lparr>qty = - 10, price = 60\<rparr> None
      = Inr (seeded_portfolio\<lparr>trades := [(0, [(''X'', \<lparr>qty = - 10, price = 60\<rparr>)])],
                              positions := [(0, [(''USD'', 600)])]\<rparr>)"
    by (simp add: add_trade_def apply_trade_def seeded_portfolio_def dict_get_def)
  have ct: "carry_to seeded_portfolio 3 None
      = Inr (seeded_portfolio\<lparr>positions := [(0, [(''X'', 10)]), (3, [(''USD'', 0), (''X'', 10)])]\<rparr>)"
    by (simp add: carry_to_def find_lt_def bisect_left_def seeded_portfolio_def objs_or_own_def
        get_security_def stock_X_def add_position_def dict_get_def)
  note t0 = ledger_no_zero_entries [OF nz dk, of 0 None "''X''" "\<lparr>qty = - 10, price = 60\<rparr>"]
  note t3 = ledger_no_zero_entries [OF nz dk, of 3 None]
  have 1: "\<exists>p'. add_trade seeded_portfolio 0 ''X'' \<lparr>qty = - 10, price = 60\<rparr> None = Inr p'
       \<and> map_of (positions p') 0 = Some [(''USD'', 600)] \<and> no_zero_qty p'"
    using t0 [THEN conjunct2, THEN conjunct1] at by simp
  have 2: "\<exists>p'. carry_to seeded_portfolio 3 None = Inr p'
       \<and> map_of (positions p') 3 = Some [(''USD'', 0), (''X'', 10)] \<and> no_zero_qty p'"
    using t3 [THEN conjunct1] ct by simp
  have 3: "no_zero_qty (add_position seeded_portfolio 0 ''X'' 5)"
    using t0 [of 5, THEN conjunct2, THEN conjunct2, THEN conjunct2, THEN conjunct1] hq by simp
  have 4: "no_zero_qty (remove_position seeded_portfolio 0 ''X'' (Some 4))"
    using t0 [of 4, THEN conjunct2, THEN conjunct2, THEN conjunct2, THEN conjunct2] hq by simp
  from 1 2 3 4 show ?thesis by (intro conjI)
qed

theorem position_updates_leave_zero_entries:
  "no_zero_qty (add_position (Portfolio ''USD'' None) 0 ''X'' 5)
   \<and> \<not> no_zero_qty (remove_position (add_position (Portfolio ''USD'' None) 0 ''X'' 5) 0 ''X'' (Some 5))
   \<and> \<not> no_zero_qty (add_position (add_position (Portfolio ''USD'' None) 0 ''X'' 5) 0 ''X'' (- 5))
   \<and> positions (remove_position (add_position (Portfolio ''USD'' None) 0 ''X'' 5) 0 ''X'' (Some 5))
       = [(0, [(''X'', 0)])]"
  by (simp add: no_zero_qty_def add_position_def remove_position_def Portfolio_def dict_get_def)

end
